theory Spec2Isabelle
  imports Main "HOL-Library.Word"
begin

unbundle bit_operations_syntax

section \<open>The IMX219 sensor driver (drivers/media/i2c/imx219.c)\<close>

text \<open>
  A shallow embedding of the control logic of the driver: the mode catalog, best-fit
  mode selection, the gain and blanking controls, the streaming sequence and the
  identity check. C's fixed-width integers are words; the \<^verbatim>\<open>int\<close> status codes
  (0 or a negative errno) are integers, and \<^verbatim>\<open>ret |= ...\<close> is the bitwise OR.
\<close>

type_synonym u8 = "8 word"
type_synonym u16 = "16 word"
type_synonym u32 = "32 word"

subsection \<open>Constants\<close>

text \<open>
  The errno values, the media bus format code, the HDR tag and the format whence are
  declared in kernel headers that are not among the sources
  (errno-base.h, media-bus-format.h, rk-camera-module.h, v4l2-subdev.h).
\<close>

definition EIO :: int where "EIO = 5"
definition ENODEV :: int where "ENODEV = 19"
definition EINVAL :: int where "EINVAL = 22"
definition ENOIOCTLCMD :: int where "ENOIOCTLCMD = 515"

definition MEDIA_BUS_FMT_SRGGB10_1X10 :: u32 where "MEDIA_BUS_FMT_SRGGB10_1X10 = 0x300f"
definition NO_HDR :: u32 where "NO_HDR = 0"
definition V4L2_SUBDEV_FORMAT_TRY :: u32 where "V4L2_SUBDEV_FORMAT_TRY = 0"
definition V4L2_SUBDEV_FORMAT_ACTIVE :: u32 where "V4L2_SUBDEV_FORMAT_ACTIVE = 1"
definition V4L2_FIELD_NONE :: u32 where "V4L2_FIELD_NONE = 1"

definition REG_VALUE_08BIT :: nat where "REG_VALUE_08BIT = 1"
definition REG_VALUE_16BIT :: nat where "REG_VALUE_16BIT = 2"

definition IMX219_TABLE_END :: u16 where "IMX219_TABLE_END = 0xffff"

definition IMX219_REG_MODEL_ID :: u16 where "IMX219_REG_MODEL_ID = 0x0000"
definition IMX219_REG_LOT_ID_H :: u16 where "IMX219_REG_LOT_ID_H = 0x0004"
definition IMX219_REG_LOT_ID_M :: u16 where "IMX219_REG_LOT_ID_M = 0x0005"
definition IMX219_REG_LOT_ID_L :: u16 where "IMX219_REG_LOT_ID_L = 0x0006"
definition IMX219_REG_CHIP_ID :: u16 where "IMX219_REG_CHIP_ID = 0x000D"
definition IMX219_REG_MODE_SELECT :: u16 where "IMX219_REG_MODE_SELECT = 0x0100"
definition IMX219_REG_EXPOSURE :: u16 where "IMX219_REG_EXPOSURE = 0x015A"
definition IMX219_REG_ANA_GAIN_GLOBAL_A :: u16 where "IMX219_REG_ANA_GAIN_GLOBAL_A = 0x0157"
definition IMX219_REG_DIG_GAIN_GLOBAL_A :: u16 where "IMX219_REG_DIG_GAIN_GLOBAL_A = 0x0158"
definition IMX219_REG_FRM_LENGTH_A :: u16 where "IMX219_REG_FRM_LENGTH_A = 0x0160"
definition IMX219_REG_IMG_ORIENTATION :: u16 where "IMX219_REG_IMG_ORIENTATION = 0x0172"
definition IMX219_REG_TP :: u16 where "IMX219_REG_TP = 0x0600"
definition IMX219_REG_TD_R :: u16 where "IMX219_REG_TD_R = 0x0602"
definition IMX219_REG_TD_GR :: u16 where "IMX219_REG_TD_GR = 0x0604"
definition IMX219_REG_TD_B :: u16 where "IMX219_REG_TD_B = 0x0606"
definition IMX219_REG_TD_GB :: u16 where "IMX219_REG_TD_GB = 0x0608"
definition IMX219_REG_TP_WINDOW_WIDTH :: u16 where "IMX219_REG_TP_WINDOW_WIDTH = 0x0624"
definition IMX219_REG_TP_WINDOW_HEIGHT :: u16 where "IMX219_REG_TP_WINDOW_HEIGHT = 0x0626"

definition IMX219_EXP_LINES_MARGIN :: u32 where "IMX219_EXP_LINES_MARGIN = 4"
definition IMX219_VTS_MAX :: u32 where "IMX219_VTS_MAX = 0xffff"
definition IMX219_MODEL_ID :: u32 where "IMX219_MODEL_ID = 0x0219"

subsection \<open>Register tables and the mode catalog\<close>

text \<open>\<^verbatim>\<open>struct imx219_reg { u16 addr; u8 val; }\<close> as a pair.\<close>

type_synonym imx219_reg = "u16 \<times> u8"

record imx219_mode =
  bus_fmt :: u32
  width :: u32
  height :: u32
  max_fps_numerator :: u32
  max_fps_denominator :: u32
  hts_def :: u32
  vts_def :: u32
  reg_list :: "imx219_reg list"
  hdr_mode :: u32
  freq_idx :: u32

definition imx219_init_tab_3280_2464_21fps :: "imx219_reg list" where
  "imx219_init_tab_3280_2464_21fps =
    [(0x30EB, 0x05), (0x30EB, 0x0C), (0x300A, 0xFF), (0x300B, 0xFF), (0x30EB, 0x05),
     (0x30EB, 0x09), (0x0114, 0x01), (0x0128, 0x00), (0x012A, 0x18), (0x012B, 0x00),
     (0x0164, 0x00), (0x0165, 0x00), (0x0166, 0x0c), (0x0167, 0xcf), (0x0168, 0x00),
     (0x0169, 0x00), (0x016A, 0x09), (0x016B, 0x9f), (0x016C, 0x0c), (0x016D, 0xd0),
     (0x016E, 0x09), (0x016f, 0xa0), (0x015A, 0x01), (0x015B, 0xF4), (0x0160, 0x09),
     (0x0161, 0xC4), (0x0162, 0x0D), (0x0163, 0x78), (0x0260, 0x09), (0x0261, 0xC4),
     (0x0262, 0x0D), (0x0263, 0x78), (0x0170, 0x01), (0x0171, 0x01), (0x0270, 0x01),
     (0x0271, 0x01), (0x0174, 0x00), (0x0175, 0x00), (0x0274, 0x00), (0x0275, 0x00),
     (0x018C, 0x0A), (0x018D, 0x0A), (0x028C, 0x0A), (0x028D, 0x0A), (0x0301, 0x05),
     (0x0303, 0x01), (0x0304, 0x03), (0x0305, 0x03), (0x0306, 0x00), (0x0307, 0x39),
     (0x0309, 0x0A), (0x030B, 0x01), (0x030C, 0x00), (0x030D, 0x72), (0x455E, 0x00),
     (0x471E, 0x4B), (0x4767, 0x0F), (0x4750, 0x14), (0x47B4, 0x14), (0x4713, 0x30),
     (0x478b, 0x10), (0x478f, 0x10), (0x4793, 0x10), (0x4797, 0x0e), (0x479b, 0x0e),
     (0xffff, 0x00)]"

definition imx219_init_tab_1920_1080_30fps :: "imx219_reg list" where
  "imx219_init_tab_1920_1080_30fps =
    [(0x30EB, 0x05), (0x30EB, 0x0C), (0x300A, 0xFF), (0x300B, 0xFF), (0x30EB, 0x05),
     (0x30EB, 0x09), (0x0114, 0x01), (0x0128, 0x00), (0x012A, 0x18), (0x012B, 0x00),
     (0x0160, 0x06), (0x0161, 0xE6), (0x0162, 0x0D), (0x0163, 0x78), (0x0164, 0x02),
     (0x0165, 0xA8), (0x0166, 0x0A), (0x0167, 0x27), (0x0168, 0x02), (0x0169, 0xB4),
     (0x016A, 0x06), (0x016B, 0xEB), (0x016C, 0x07), (0x016D, 0x80), (0x016E, 0x04),
     (0x016F, 0x38), (0x0170, 0x01), (0x0171, 0x01), (0x0174, 0x00), (0x0175, 0x00),
     (0x018C, 0x0A), (0x018D, 0x0A), (0x0301, 0x05), (0x0303, 0x01), (0x0304, 0x03),
     (0x0305, 0x03), (0x0306, 0x00), (0x0307, 0x39), (0x0309, 0x0A), (0x030B, 0x01),
     (0x030C, 0x00), (0x030D, 0x72), (0x455E, 0x00), (0x471E, 0x4B), (0x4767, 0x0F),
     (0x4750, 0x14), (0x4540, 0x00), (0x47B4, 0x14),
     (0xffff, 0x00)]"

definition start :: "imx219_reg list" where
  "start = [(0x0100, 0x01), (0xffff, 0x00)]"

definition stop :: "imx219_reg list" where
  "stop = [(0x0100, 0x00), (0xffff, 0x00)]"

definition test_pattern_val :: "u16 list" where
  "test_pattern_val = [0, 1, 2, 3, 4]"

definition supported_modes :: "imx219_mode list" where
  "supported_modes =
    [\<lparr>bus_fmt = MEDIA_BUS_FMT_SRGGB10_1X10, width = 1920, height = 1080,
      max_fps_numerator = 10000, max_fps_denominator = 300000,
      hts_def = 0x0d78 - IMX219_EXP_LINES_MARGIN, vts_def = 0x06E3,
      reg_list = imx219_init_tab_1920_1080_30fps, hdr_mode = NO_HDR, freq_idx = 0\<rparr>,
     \<lparr>bus_fmt = MEDIA_BUS_FMT_SRGGB10_1X10, width = 3280, height = 2464,
      max_fps_numerator = 10000, max_fps_denominator = 210000,
      hts_def = 0x0d78 - IMX219_EXP_LINES_MARGIN, vts_def = 0x09c4,
      reg_list = imx219_init_tab_3280_2464_21fps, hdr_mode = NO_HDR, freq_idx = 0\<rparr>]"

subsection \<open>Best-fit mode selection\<close>

text \<open>
  \<^verbatim>\<open>struct v4l2_subdev_format\<close> with the fields of its \<^verbatim>\<open>format\<close> member that
  the driver's format operations read or write. The colorimetry fields, which
  \<^verbatim>\<open>imx219_reset_colorspace\<close> alone assigns, are left out.
\<close>

record v4l2_subdev_format =
  which :: u32
  fmt_width :: u32
  fmt_height :: u32
  fmt_code :: u32
  fmt_field :: u32

text \<open>
  Modelled from the spec: the kernel's \<^verbatim>\<open>abs()\<close> macro (include/linux/kernel.h) is not
  among the sources. The spec reads it as the absolute value; the macro takes it of its
  operand converted to a signed \<^verbatim>\<open>int\<close>, and the negation is 32-bit arithmetic.
\<close>

definition abs_int :: "u32 \<Rightarrow> u32" where
  "abs_int x = (if sint x < 0 then - x else x)"

text \<open>
  \<^verbatim>\<open>imx219_get_reso_dist\<close>: both differences are computed on \<^verbatim>\<open>u32\<close> operands, the sum
  is an \<^verbatim>\<open>int\<close>; the result is read as a signed 32-bit value.
\<close>

definition imx219_get_reso_dist :: "imx219_mode \<Rightarrow> v4l2_subdev_format \<Rightarrow> int" where
  "imx219_get_reso_dist mode framefmt =
     sint (abs_int (width mode - fmt_width framefmt) +
           abs_int (height mode - fmt_height framefmt))"

text \<open>
  The loop of \<^verbatim>\<open>imx219_find_best_fit\<close> over \<^verbatim>\<open>i = 0 .. ARRAY_SIZE(supported_modes) - 1\<close>;
  the loop state is \<^verbatim>\<open>(cur_best_fit, cur_best_fit_dist)\<close>, initially \<^verbatim>\<open>(0, -1)\<close>.
\<close>

definition best_fit_step ::
  "imx219_mode list \<Rightarrow> v4l2_subdev_format \<Rightarrow> nat \<Rightarrow> nat \<times> int \<Rightarrow> nat \<times> int" where
  "best_fit_step modes fmt i st =
     (let dist = imx219_get_reso_dist (modes ! i) fmt
      in if snd st = - 1 \<or> dist < snd st then (i, dist) else st)"

definition best_fit_index :: "imx219_mode list \<Rightarrow> v4l2_subdev_format \<Rightarrow> nat" where
  "best_fit_index modes fmt =
     fst (fold (best_fit_step modes fmt) [0 ..< length modes] (0, - 1))"

definition imx219_find_best_fit :: "v4l2_subdev_format \<Rightarrow> imx219_mode" where
  "imx219_find_best_fit fmt = supported_modes ! best_fit_index supported_modes fmt"

text \<open>The distance the spec states: the L1 distance of the resolutions as integers.\<close>

definition l1_dist :: "imx219_mode \<Rightarrow> v4l2_subdev_format \<Rightarrow> int" where
  "l1_dist mode fmt =
     \<bar>uint (width mode) - uint (fmt_width fmt)\<bar> + \<bar>uint (height mode) - uint (fmt_height fmt)\<bar>"

subsection \<open>The environment: two-wire bus, clock and control framework\<close>

text \<open>
  The driver reaches the outside through \<^verbatim>\<open>i2c_master_send\<close>, \<^verbatim>\<open>i2c_transfer\<close>,
  the clock calls and the control framework's \<^verbatim>\<open>__v4l2_ctrl_modify_range\<close> and
  \<^verbatim>\<open>__v4l2_ctrl_s_ctrl_int64\<close>. None of them is among the sources, so they are a
  parameter: every call is appended to a trace, and what the bus answers to the call
  \<open>e\<close> made when the trace has length \<open>n\<close> is given by \<open>xfer_ret n e\<close> (the return
  value of \<^verbatim>\<open>i2c_master_send\<close> or \<^verbatim>\<open>i2c_transfer\<close>) and \<open>xfer_byte n\<close> (the bytes
  a read delivers). The mutex is not modelled: the embedding is sequential.
\<close>

datatype ctrl = HBLANK | VBLANK | PIXEL_RATE

datatype event =
    I2C_Send "u8 list"
  | I2C_Read "u8 list" nat
  | Clk_Enable
  | Clk_Disable
  | Modify_Range ctrl int int int int
  | S_Ctrl_Int64 ctrl int

record i2c_client =
  xfer_ret :: "nat \<Rightarrow> event \<Rightarrow> int"
  xfer_byte :: "nat \<Rightarrow> nat \<Rightarrow> u8"
  trace :: "event list"

definition emit :: "i2c_client \<Rightarrow> event \<Rightarrow> i2c_client" where
  "emit c e = c\<lparr>trace := trace c @ [e]\<rparr>"

definition i2c_master_send :: "i2c_client \<Rightarrow> u8 list \<Rightarrow> nat \<Rightarrow> int \<times> i2c_client" where
  "i2c_master_send c buf count =
     (xfer_ret c (length (trace c)) (I2C_Send (take count buf)),
      emit c (I2C_Send (take count buf)))"

definition put_unaligned_be16 :: "u16 \<Rightarrow> u8 list" where
  "put_unaligned_be16 v = [ucast (drop_bit 8 v), ucast v]"

definition put_unaligned_be32 :: "u32 \<Rightarrow> u8 list" where
  "put_unaligned_be32 v =
     [ucast (drop_bit 24 v), ucast (drop_bit 16 v), ucast (drop_bit 8 v), ucast v]"

definition get_unaligned_be32 :: "u8 list \<Rightarrow> u32" where
  "get_unaligned_be32 b =
     push_bit 24 (ucast (b ! 0)) OR push_bit 16 (ucast (b ! 1)) OR
     push_bit 8 (ucast (b ! 2)) OR ucast (b ! 3)"

text \<open>The six-byte buffer that \<^verbatim>\<open>reg_write\<close> fills; its first \<open>len + 2\<close> bytes are sent.\<close>

definition reg_write_buf :: "u16 \<Rightarrow> nat \<Rightarrow> u32 \<Rightarrow> u8 list" where
  "reg_write_buf addr len data =
     put_unaligned_be16 addr @ put_unaligned_be32 (push_bit (8 * (4 - len)) data)"

definition reg_write :: "i2c_client \<Rightarrow> u16 \<Rightarrow> nat \<Rightarrow> u32 \<Rightarrow> int \<times> i2c_client" where
  "reg_write c addr len data =
     (if len > 4 then (- EINVAL, c)
      else case i2c_master_send c (reg_write_buf addr len data) (len + 2) of
             (n, c') \<Rightarrow> if n \<noteq> int (len + 2) then (- EIO, c') else (0, c'))"

text \<open>
  \<^verbatim>\<open>reg_read\<close> returns the status and stores the value through a pointer only on
  success: \<open>Inl\<close> is the negative errno, \<open>Inr\<close> the value read.
\<close>

definition reg_read :: "i2c_client \<Rightarrow> u16 \<Rightarrow> nat \<Rightarrow> (int + u32) \<times> i2c_client" where
  "reg_read c addr len =
     (if len > 4 then (Inl (- EINVAL), c)
      else let n = length (trace c);
               addr_buf = [ucast (drop_bit 8 addr), ucast (addr AND 0xff)];
               ret = xfer_ret c n (I2C_Read addr_buf len);
               data_buf = replicate (4 - len) 0 @ map (xfer_byte c n) [0 ..< len];
               c' = emit c (I2C_Read addr_buf len)
           in if ret \<noteq> 2 then (Inl (- EIO), c')
              else if ret < 0 then (Inl (- EIO), c')
              else (Inr (get_unaligned_be32 data_buf), c'))"

text \<open>
  \<^verbatim>\<open>reg_write_table\<close> walks the table up to the \<^verbatim>\<open>IMX219_TABLE_END\<close> sentinel. Every table
  of the driver ends with the sentinel; a list without one ends the walk where the list
  ends.
\<close>

fun reg_write_table :: "i2c_client \<Rightarrow> imx219_reg list \<Rightarrow> int \<times> i2c_client" where
  "reg_write_table c [] = (0, c)"
| "reg_write_table c ((a, v) # table) =
     (if a = IMX219_TABLE_END then (0, c)
      else case reg_write c a REG_VALUE_08BIT (ucast v) of
             (ret, c') \<Rightarrow> if ret < 0 then (ret, c') else reg_write_table c' table)"

definition v4l2_ctrl_modify_range ::
  "i2c_client \<Rightarrow> ctrl \<Rightarrow> int \<Rightarrow> int \<Rightarrow> int \<Rightarrow> int \<Rightarrow> i2c_client" where
  "v4l2_ctrl_modify_range c ctl mn mx step def = emit c (Modify_Range ctl mn mx step def)"

definition v4l2_ctrl_s_ctrl_int64 :: "i2c_client \<Rightarrow> ctrl \<Rightarrow> int \<Rightarrow> i2c_client" where
  "v4l2_ctrl_s_ctrl_int64 c ctl v = emit c (S_Ctrl_Int64 ctl v)"

text \<open>
  Modelled from the spec: the kernel's \<^verbatim>\<open>DIV_ROUND_CLOSEST\<close> macro is not among the
  sources. The spec asks for round-half-away-from-zero integer division of positive
  operands; on \<^verbatim>\<open>u32\<close> operands that is \<open>(x + d / 2) / d\<close> in 32-bit arithmetic.
\<close>

definition DIV_ROUND_CLOSEST :: "u32 \<Rightarrow> u32 \<Rightarrow> u32" where
  "DIV_ROUND_CLOSEST x d = (x + d div 2) div d"

subsection \<open>The driver state\<close>

record imx219 =
  hflip :: u32
  vflip :: u32
  analogue_gain :: u8
  digital_gain :: u16
  exposure_time :: u16
  test_pattern :: u16
  cur_mode :: imx219_mode
  cfg_num :: u32
  cur_vts :: u16

subsection \<open>Streaming\<close>

text \<open>The three test-pattern writes of \<^verbatim>\<open>imx219_s_stream\<close>, or the single disabling one.\<close>

definition s_stream_test_pattern :: "imx219 \<Rightarrow> i2c_client \<Rightarrow> int \<times> i2c_client" where
  "s_stream_test_pattern priv c =
     (if test_pattern priv \<noteq> 0 then
        case reg_write c IMX219_REG_TP REG_VALUE_16BIT (ucast (test_pattern priv)) of
          (r1, c1) \<Rightarrow>
        case reg_write c1 IMX219_REG_TP_WINDOW_WIDTH REG_VALUE_16BIT (width (cur_mode priv)) of
          (r2, c2) \<Rightarrow>
        case reg_write c2 IMX219_REG_TP_WINDOW_HEIGHT REG_VALUE_16BIT (height (cur_mode priv)) of
          (r3, c3) \<Rightarrow> ((r1 OR r2) OR r3, c3)
      else reg_write c IMX219_REG_TP REG_VALUE_16BIT 0)"

definition orientation_reg :: "imx219 \<Rightarrow> u8" where
  "orientation_reg priv =
     (let reg = 0;
          reg = (if hflip priv \<noteq> 0 then reg OR 1 else reg);
          reg = (if vflip priv \<noteq> 0 then reg OR 2 else reg)
      in reg)"

definition imx219_s_stream :: "imx219 \<Rightarrow> i2c_client \<Rightarrow> u32 \<Rightarrow> int \<times> imx219 \<times> i2c_client" where
  "imx219_s_stream priv c enable =
     (if enable = 0 then
        case reg_write_table c stop of (ret, c') \<Rightarrow> (ret, priv, c')
      else
        case reg_write_table c (reg_list (cur_mode priv)) of (ret, c1) \<Rightarrow>
        if ret \<noteq> 0 then (ret, priv, c1)
        else
          case reg_write c1 IMX219_REG_IMG_ORIENTATION REG_VALUE_08BIT
                 (ucast (orientation_reg priv)) of (ret, c2) \<Rightarrow>
          if ret \<noteq> 0 then (ret, priv, c2)
          else
            case s_stream_test_pattern priv c2 of (ret, c3) \<Rightarrow>
            let priv' = priv\<lparr>cur_vts :=
                          ucast (vts_def (cur_mode priv) - IMX219_EXP_LINES_MARGIN)\<rparr>
            in if ret \<noteq> 0 then (ret, priv', c3)
               else case reg_write_table c3 start of (ret, c4) \<Rightarrow> (ret, priv', c4))"

subsection \<open>Power and the identity check\<close>

definition imx219_s_power :: "i2c_client \<Rightarrow> u32 \<Rightarrow> int \<times> i2c_client" where
  "imx219_s_power c on = (if on \<noteq> 0 then (0, emit c Clk_Enable) else (0, emit c Clk_Disable))"

text \<open>The label \<^verbatim>\<open>done:\<close> of \<^verbatim>\<open>imx219_video_probe\<close>: power off, return \<^verbatim>\<open>ret\<close>.\<close>

definition probe_done :: "int \<Rightarrow> i2c_client \<Rightarrow> int \<times> i2c_client" where
  "probe_done ret c = (case imx219_s_power c 0 of (_, c') \<Rightarrow> (ret, c'))"

definition imx219_video_probe :: "i2c_client \<Rightarrow> int \<times> i2c_client" where
  "imx219_video_probe c =
     (case imx219_s_power c 1 of (ret, c0) \<Rightarrow>
      if ret < 0 then (ret, c0)
      else case reg_read c0 IMX219_REG_MODEL_ID REG_VALUE_16BIT of
        (Inl ret, c1) \<Rightarrow> probe_done ret c1
      | (Inr model_id, c1) \<Rightarrow>
      case reg_read c1 IMX219_REG_LOT_ID_H REG_VALUE_08BIT of
        (Inl ret, c2) \<Rightarrow> probe_done ret c2
      | (Inr val_h, c2) \<Rightarrow>
      case reg_read c2 IMX219_REG_LOT_ID_M REG_VALUE_08BIT of
        (Inl ret, c3) \<Rightarrow> probe_done ret c3
      | (Inr val_m, c3) \<Rightarrow>
      case reg_read c3 IMX219_REG_LOT_ID_L REG_VALUE_08BIT of
        (Inl ret, c4) \<Rightarrow> probe_done ret c4
      | (Inr val_l, c4) \<Rightarrow>
      case reg_read c4 IMX219_REG_CHIP_ID REG_VALUE_16BIT of
        (Inl ret, c5) \<Rightarrow> probe_done ret c5
      | (Inr chip_id, c5) \<Rightarrow>
      if model_id \<noteq> IMX219_MODEL_ID then probe_done (- ENODEV) c5
      else probe_done 0 c5)"

subsection \<open>Controls\<close>

text \<open>
  The control identifiers that \<^verbatim>\<open>imx219_s_ctrl\<close> distinguishes; \<open>V4L2_CID_OTHER\<close> stands
  for every other identifier (the \<^verbatim>\<open>default\<close> case). \<^verbatim>\<open>ctrl->val\<close> is an \<^verbatim>\<open>s32\<close>, kept
  as its 32-bit pattern.
\<close>

datatype v4l2_cid =
    V4L2_CID_HFLIP
  | V4L2_CID_VFLIP
  | V4L2_CID_ANALOGUE_GAIN
  | V4L2_CID_GAIN
  | V4L2_CID_EXPOSURE
  | V4L2_CID_TEST_PATTERN
  | V4L2_CID_TEST_PATTERN_RED
  | V4L2_CID_TEST_PATTERN_GREENR
  | V4L2_CID_TEST_PATTERN_BLUE
  | V4L2_CID_TEST_PATTERN_GREENB
  | V4L2_CID_VBLANK
  | V4L2_CID_OTHER

text \<open>
  The split of the unified gain into the locals \<^verbatim>\<open>a_gain\<close> and \<^verbatim>\<open>d_gain\<close>
  (all three are \<^verbatim>\<open>u16\<close>; the product and the quotient are computed on \<^verbatim>\<open>int\<close>).
\<close>

definition gain_clamp :: "u32 \<Rightarrow> u16" where
  "gain_clamp v =
     (let gain = (ucast v :: u16);
          gain = (if gain < 256 then 256 else gain);
          gain = (if gain > 43663 then 43663 else gain)
      in gain)"

definition gain_split :: "u16 \<Rightarrow> u16 \<times> u16" where
  "gain_split gain =
     (if gain \<ge> 256 \<and> gain \<le> 2728 then (gain, 1 * 256)
      else (let a_gain = (2728 :: u16)
            in (a_gain, word_of_int ((uint gain * 256) div uint a_gain))))"

definition analogue_gain_code :: "u16 \<Rightarrow> u8" where
  "analogue_gain_code a_gain =
     (let ag = (word_of_int (256 - (256 * 256) div uint a_gain) :: u8);
          ag = (if a_gain < 256 then 0 else ag);
          ag = (if ag > 232 then 232 else ag)
      in ag)"

definition digital_gain_code :: "u16 \<Rightarrow> u16" where
  "digital_gain_code d_gain =
     (let dg = d_gain;
          dg = (if dg < 256 then 256 else dg);
          dg = (if dg > 4095 then 4095 else dg)
      in dg)"

text \<open>The case \<^verbatim>\<open>V4L2_CID_ANALOGUE_GAIN\<close> / \<^verbatim>\<open>V4L2_CID_GAIN\<close>.\<close>

definition s_ctrl_gain :: "imx219 \<Rightarrow> i2c_client \<Rightarrow> u32 \<Rightarrow> int \<times> imx219 \<times> i2c_client" where
  "s_ctrl_gain priv c v =
     (case gain_split (gain_clamp v) of (a_gain, d_gain) \<Rightarrow>
      let priv1 = priv\<lparr>analogue_gain := analogue_gain_code a_gain\<rparr>;
          priv2 = priv1\<lparr>digital_gain := digital_gain_code d_gain\<rparr>
      in case reg_write c IMX219_REG_ANA_GAIN_GLOBAL_A REG_VALUE_08BIT
                (ucast (analogue_gain priv2)) of (r1, c1) \<Rightarrow>
         case reg_write c1 IMX219_REG_DIG_GAIN_GLOBAL_A REG_VALUE_16BIT
                (ucast (digital_gain priv2)) of (r2, c2) \<Rightarrow>
         (r1 OR r2, priv2, c2))"

text \<open>The case \<^verbatim>\<open>V4L2_CID_EXPOSURE\<close>.\<close>

definition s_ctrl_exposure :: "imx219 \<Rightarrow> i2c_client \<Rightarrow> u32 \<Rightarrow> int \<times> imx219 \<times> i2c_client" where
  "s_ctrl_exposure priv c v =
     (let priv1 = priv\<lparr>exposure_time := ucast v\<rparr>
      in case reg_write c IMX219_REG_EXPOSURE REG_VALUE_16BIT (ucast (exposure_time priv1)) of
           (ret, c1) \<Rightarrow> (ret, priv1, c1))"

text \<open>
  The case \<^verbatim>\<open>V4L2_CID_TEST_PATTERN\<close>. The index into \<^verbatim>\<open>test_pattern_val\<close> is not
  checked by the driver; outside the table the read is undefined, which is \<open>None\<close>.
\<close>

definition s_ctrl_test_pattern ::
  "imx219 \<Rightarrow> i2c_client \<Rightarrow> u32 \<Rightarrow> (int \<times> imx219 \<times> i2c_client) option" where
  "s_ctrl_test_pattern priv c v =
     (if 0 \<le> sint v \<and> sint v < int (length test_pattern_val) then
        let priv1 = priv\<lparr>test_pattern := test_pattern_val ! nat (sint v)\<rparr>
        in case reg_write c IMX219_REG_TP REG_VALUE_16BIT (ucast (test_pattern priv1)) of
             (ret, c1) \<Rightarrow> Some (ret, priv1, c1)
      else None)"

text \<open>The four cases \<^verbatim>\<open>V4L2_CID_TEST_PATTERN_RED\<close> ... \<^verbatim>\<open>GREENB\<close>, by register.\<close>

definition s_ctrl_test_colour ::
  "imx219 \<Rightarrow> i2c_client \<Rightarrow> u16 \<Rightarrow> u32 \<Rightarrow> int \<times> imx219 \<times> i2c_client" where
  "s_ctrl_test_colour priv c reg v =
     (let value = (ucast (v AND 0xffff) :: u16)
      in case reg_write c reg REG_VALUE_16BIT (ucast value) of (ret, c1) \<Rightarrow> (ret, priv, c1))"

text \<open>
  The case \<^verbatim>\<open>V4L2_CID_VBLANK\<close>; it also returns the updated \<^verbatim>\<open>ctrl->val\<close>. The first
  comparison is between an \<^verbatim>\<open>s32\<close> and a \<^verbatim>\<open>u32\<close>, hence unsigned; the second is on
  \<^verbatim>\<open>int\<close>.
\<close>

definition s_ctrl_vblank ::
  "imx219 \<Rightarrow> i2c_client \<Rightarrow> u32 \<Rightarrow> int \<times> u32 \<times> imx219 \<times> i2c_client" where
  "s_ctrl_vblank priv c v =
     (let v1 = (if v < vts_def (cur_mode priv) then vts_def (cur_mode priv) else v);
          priv1 = (if sint (v1 - IMX219_EXP_LINES_MARGIN) \<noteq> uint (cur_vts priv)
                   then priv\<lparr>cur_vts := ucast (v1 - IMX219_EXP_LINES_MARGIN)\<rparr>
                   else priv)
      in case reg_write c IMX219_REG_FRM_LENGTH_A REG_VALUE_16BIT (ucast (cur_vts priv1)) of
           (ret, c1) \<Rightarrow> (ret, v1, priv1, c1))"

text \<open>
  The tail of \<^verbatim>\<open>imx219_s_ctrl\<close> after the \<^verbatim>\<open>switch\<close>, reached by the cases that
  \<^verbatim>\<open>break\<close>: read the mode-select register and restart the stream if it is streaming.
\<close>

definition s_ctrl_apply :: "imx219 \<Rightarrow> i2c_client \<Rightarrow> int \<times> imx219 \<times> i2c_client" where
  "s_ctrl_apply priv c =
     (case reg_read c IMX219_REG_MODE_SELECT REG_VALUE_08BIT of
        (Inl ret, c1) \<Rightarrow> (ret, priv, c1)
      | (Inr reg, c1) \<Rightarrow>
          if reg AND 0x1f = 0x01 then
            (case imx219_s_stream priv c1 1 of (_, priv2, c2) \<Rightarrow> (0, priv2, c2))
          else (0, priv, c1))"

definition with_val :: "u32 \<Rightarrow> int \<times> imx219 \<times> i2c_client \<Rightarrow> int \<times> u32 \<times> imx219 \<times> i2c_client" where
  "with_val v r = (case r of (ret, priv, c) \<Rightarrow> (ret, v, priv, c))"

text \<open>
  \<^verbatim>\<open>imx219_s_ctrl\<close>: the result is the status, \<^verbatim>\<open>ctrl->val\<close>, the driver state and
  the environment after the call.
\<close>

definition imx219_s_ctrl ::
  "imx219 \<Rightarrow> i2c_client \<Rightarrow> v4l2_cid \<Rightarrow> u32 \<Rightarrow> (int \<times> u32 \<times> imx219 \<times> i2c_client) option" where
  "imx219_s_ctrl priv c cid v =
     (case cid of
        V4L2_CID_HFLIP \<Rightarrow> Some (with_val v (s_ctrl_apply (priv\<lparr>hflip := v\<rparr>) c))
      | V4L2_CID_VFLIP \<Rightarrow> Some (with_val v (s_ctrl_apply (priv\<lparr>vflip := v\<rparr>) c))
      | V4L2_CID_ANALOGUE_GAIN \<Rightarrow> Some (with_val v (s_ctrl_gain priv c v))
      | V4L2_CID_GAIN \<Rightarrow> Some (with_val v (s_ctrl_gain priv c v))
      | V4L2_CID_EXPOSURE \<Rightarrow> Some (with_val v (s_ctrl_exposure priv c v))
      | V4L2_CID_TEST_PATTERN \<Rightarrow> map_option (with_val v) (s_ctrl_test_pattern priv c v)
      | V4L2_CID_TEST_PATTERN_RED \<Rightarrow>
          Some (with_val v (s_ctrl_test_colour priv c IMX219_REG_TD_R v))
      | V4L2_CID_TEST_PATTERN_GREENR \<Rightarrow>
          Some (with_val v (s_ctrl_test_colour priv c IMX219_REG_TD_GR v))
      | V4L2_CID_TEST_PATTERN_BLUE \<Rightarrow>
          Some (with_val v (s_ctrl_test_colour priv c IMX219_REG_TD_B v))
      | V4L2_CID_TEST_PATTERN_GREENB \<Rightarrow>
          Some (with_val v (s_ctrl_test_colour priv c IMX219_REG_TD_GB v))
      | V4L2_CID_VBLANK \<Rightarrow> Some (s_ctrl_vblank priv c v)
      | V4L2_CID_OTHER \<Rightarrow> Some (- EINVAL, v, priv, c))"

subsection \<open>Format operations and the vendor commands\<close>

text \<open>
  The republication of the three derived control ranges in \<^verbatim>\<open>imx219_set_fmt\<close>. The
  operands are \<^verbatim>\<open>u32\<close>; the results are widened to \<^verbatim>\<open>s64\<close>, which holds every
  \<^verbatim>\<open>u32\<close> value, so they are integers.
\<close>

definition mode_fps :: "imx219_mode \<Rightarrow> u32" where
  "mode_fps mode = DIV_ROUND_CLOSEST (max_fps_denominator mode) (max_fps_numerator mode)"

definition mode_pixel_rate :: "imx219_mode \<Rightarrow> int" where
  "mode_pixel_rate mode = uint (vts_def mode * hts_def mode * mode_fps mode)"

definition imx219_set_fmt ::
  "imx219 \<Rightarrow> i2c_client \<Rightarrow> v4l2_subdev_format \<Rightarrow>
     int \<times> v4l2_subdev_format \<times> imx219 \<times> i2c_client" where
  "imx219_set_fmt priv c fmt =
     (if which fmt = V4L2_SUBDEV_FORMAT_TRY then (0, fmt, priv, c)
      else
        let mode = imx219_find_best_fit fmt;
            fmt1 = fmt\<lparr>fmt_code := bus_fmt mode, fmt_width := width mode,
                       fmt_height := height mode, fmt_field := V4L2_FIELD_NONE\<rparr>;
            priv1 = priv\<lparr>cur_mode := mode\<rparr>;
            h_blank = uint (hts_def mode - width mode);
            c1 = v4l2_ctrl_modify_range c HBLANK h_blank h_blank 1 h_blank;
            v_blank = uint (vts_def mode - height mode);
            c2 = v4l2_ctrl_modify_range c1 VBLANK v_blank
                   (uint (IMX219_VTS_MAX - height mode)) 1 v_blank;
            pixel_rate = mode_pixel_rate mode;
            c3 = v4l2_ctrl_modify_range c2 PIXEL_RATE pixel_rate pixel_rate 1 pixel_rate
        in (0, fmt1, priv1, c3))"

definition imx219_get_fmt :: "imx219 \<Rightarrow> v4l2_subdev_format \<Rightarrow> int \<times> v4l2_subdev_format" where
  "imx219_get_fmt priv fmt =
     (let mode = cur_mode priv
      in if which fmt = V4L2_SUBDEV_FORMAT_TRY then (0, fmt)
         else (0, fmt\<lparr>fmt_width := width mode, fmt_height := height mode,
                       fmt_code := bus_fmt mode, fmt_field := V4L2_FIELD_NONE\<rparr>))"

text \<open>
  The vendor commands of \<^verbatim>\<open>imx219_ioctl\<close> with their arguments; the two queries only
  fill the caller's buffer, which is not modelled.
\<close>

datatype ioctl_cmd =
    RKMODULE_GET_MODULE_INFO
  | RKMODULE_GET_HDR_CFG
  | RKMODULE_SET_HDR_CFG u32
  | RKMODULE_SET_QUICK_STREAM u32
  | RKMODULE_OTHER

definition imx219_ioctl :: "imx219 \<Rightarrow> i2c_client \<Rightarrow> ioctl_cmd \<Rightarrow> int \<times> imx219 \<times> i2c_client" where
  "imx219_ioctl priv c cmd =
     (case cmd of
        RKMODULE_GET_MODULE_INFO \<Rightarrow> (0, priv, c)
      | RKMODULE_GET_HDR_CFG \<Rightarrow> (0, priv, c)
      | RKMODULE_SET_HDR_CFG hdr \<Rightarrow>
          (case find (\<lambda>m. hdr_mode m = hdr) supported_modes of
             None \<Rightarrow> (- EINVAL, priv, c)
           | Some mode \<Rightarrow>
               let priv1 = priv\<lparr>cur_mode := mode\<rparr>;
                   w = uint (hts_def mode - width mode);
                   h = uint (vts_def mode - height mode);
                   c1 = v4l2_ctrl_modify_range c HBLANK w w 1 w;
                   c2 = v4l2_ctrl_modify_range c1 VBLANK h
                          (uint (IMX219_VTS_MAX - height mode)) 1 h;
                   dst_pixel_rate = mode_pixel_rate mode;
                   c3 = v4l2_ctrl_s_ctrl_int64 c2 PIXEL_RATE dst_pixel_rate;
                   priv2 = priv1\<lparr>cur_vts := ucast (vts_def mode)\<rparr>
               in (0, priv2, c3))
      | RKMODULE_SET_QUICK_STREAM stream \<Rightarrow>
          (case (if stream \<noteq> 0 then reg_write_table c start else reg_write_table c stop) of
             (ret, c1) \<Rightarrow> (ret, priv, c1))
      | RKMODULE_OTHER \<Rightarrow> (- ENOIOCTLCMD, priv, c))"

subsection \<open>The vocabulary of the properties\<close>

text \<open>
  The bus call that \<^verbatim>\<open>reg_write\<close> makes for a register, a width and a value, and
  whether the bus accepts the call \<open>e\<close> when it is the \<open>i\<close>-th call from the state \<open>c\<close> on:
  a send is accepted when the bus reports all its bytes sent, a read when it reports both
  messages transferred.
\<close>

definition reg_write_event :: "u16 \<Rightarrow> nat \<Rightarrow> u32 \<Rightarrow> event" where
  "reg_write_event addr len data = I2C_Send (take (len + 2) (reg_write_buf addr len data))"

definition reg_read_event :: "u16 \<Rightarrow> nat \<Rightarrow> event" where
  "reg_read_event addr len = I2C_Read [ucast (drop_bit 8 addr), ucast (addr AND 0xff)] len"

definition accepted :: "i2c_client \<Rightarrow> nat \<Rightarrow> event \<Rightarrow> bool" where
  "accepted c i e =
     (xfer_ret c (length (trace c) + i) e = (case e of I2C_Send b \<Rightarrow> int (length b) | _ \<Rightarrow> 2))"

text \<open>
  The gain policy in the words of the spec, on integers: the clamp of the unified gain,
  its analog and digital portions, and the two register codes. The digital portion is
  given twice: rounded to nearest, as the spec words it, and truncated.
\<close>

definition spec_gain_clamp :: "int \<Rightarrow> int" where
  "spec_gain_clamp g = max 256 (min 43663 g)"

definition spec_analog_portion :: "int \<Rightarrow> int" where
  "spec_analog_portion g = (if g \<le> 2728 then g else 2728)"

definition round_div :: "int \<Rightarrow> int \<Rightarrow> int" where
  "round_div a b = (2 * a + b) div (2 * b)"

definition spec_digital_portion_round :: "int \<Rightarrow> int" where
  "spec_digital_portion_round g = (if g \<le> 2728 then 256 else round_div (g * 256) 2728)"

definition spec_digital_portion_trunc :: "int \<Rightarrow> int" where
  "spec_digital_portion_trunc g = (if g \<le> 2728 then 256 else (g * 256) div 2728)"

definition spec_analog_code :: "int \<Rightarrow> int" where
  "spec_analog_code a = (if a < 256 then 0 else max 0 (min 232 (256 - (256 * 256) div a)))"

definition spec_digital_code :: "int \<Rightarrow> int" where
  "spec_digital_code d = max 256 (min 4095 d)"

text \<open>
  The driver state after the gain case of \<^verbatim>\<open>imx219_s_ctrl\<close>: both codes are stored
  before the first register write.
\<close>

definition gain_state :: "imx219 \<Rightarrow> u32 \<Rightarrow> imx219" where
  "gain_state priv v =
     priv\<lparr>analogue_gain := analogue_gain_code (fst (gain_split (gain_clamp v))),
          digital_gain := digital_gain_code (snd (gain_split (gain_clamp v)))\<rparr>"

text \<open>
  The vertical-blank case of \<^verbatim>\<open>imx219_s_ctrl\<close>: the value after the raise to
  \<^verbatim>\<open>vts_def\<close>, and the driver state, stored before the register write.
\<close>

definition vblank_raise :: "imx219 \<Rightarrow> u32 \<Rightarrow> u32" where
  "vblank_raise priv v = (if v < vts_def (cur_mode priv) then vts_def (cur_mode priv) else v)"

definition vblank_state :: "imx219 \<Rightarrow> u32 \<Rightarrow> imx219" where
  "vblank_state priv v = priv\<lparr>cur_vts := ucast (vblank_raise priv v - IMX219_EXP_LINES_MARGIN)\<rparr>"

text \<open>
  The three derived control ranges in the words of the spec, on integers: the horizontal
  blank, the vertical blank with its maximum, the pixel rate, and the three range
  republications of a mode switch.
\<close>

definition spec_hblank :: "imx219_mode \<Rightarrow> int" where
  "spec_hblank m = uint (hts_def m) - uint (width m)"

definition spec_vblank :: "imx219_mode \<Rightarrow> int" where
  "spec_vblank m = uint (vts_def m) - uint (height m)"

definition spec_vblank_max :: "imx219_mode \<Rightarrow> int" where
  "spec_vblank_max m = 0xffff - uint (height m)"

definition spec_pixel_rate :: "imx219_mode \<Rightarrow> int" where
  "spec_pixel_rate m =
     uint (vts_def m) * uint (hts_def m) *
     round_div (uint (max_fps_denominator m)) (uint (max_fps_numerator m))"

definition spec_control_ranges :: "imx219_mode \<Rightarrow> event list" where
  "spec_control_ranges m =
     [Modify_Range HBLANK (spec_hblank m) (spec_hblank m) 1 (spec_hblank m),
      Modify_Range VBLANK (spec_vblank m) (spec_vblank_max m) 1 (spec_vblank m),
      Modify_Range PIXEL_RATE (spec_pixel_rate m) (spec_pixel_rate m) 1 (spec_pixel_rate m)]"

text \<open>
  The environment after a list of further calls; and whether the bus accepts each call of
  a list, the first of them being the \<open>i\<close>-th call from the state \<open>c\<close> on.
\<close>

definition emits :: "i2c_client \<Rightarrow> event list \<Rightarrow> i2c_client" where
  "emits c es = c\<lparr>trace := trace c @ es\<rparr>"

fun all_accepted :: "i2c_client \<Rightarrow> nat \<Rightarrow> event list \<Rightarrow> bool" where
  "all_accepted c i [] = True"
| "all_accepted c i (e # es) = (accepted c i e \<and> all_accepted c (i + 1) es)"

text \<open>
  The steps of the start-streaming sequence as bus calls: the writes of a register table up
  to its sentinel, the replay of the active mode's table, the orientation write, the
  test-pattern writes, the stream-enable write (the table \<^verbatim>\<open>start\<close>); and the state with
  the vertical timing that \<^verbatim>\<open>imx219_s_stream\<close> records.
\<close>

definition table_events :: "imx219_reg list \<Rightarrow> event list" where
  "table_events tbl =
     map (\<lambda>(a, v). reg_write_event a REG_VALUE_08BIT (ucast v))
       (takeWhile (\<lambda>(a, v). a \<noteq> IMX219_TABLE_END) tbl)"

definition replay_events :: "imx219 \<Rightarrow> event list" where
  "replay_events priv = table_events (reg_list (cur_mode priv))"

definition orientation_event :: "imx219 \<Rightarrow> event" where
  "orientation_event priv =
     reg_write_event IMX219_REG_IMG_ORIENTATION REG_VALUE_08BIT (ucast (orientation_reg priv))"

definition test_pattern_events :: "imx219 \<Rightarrow> event list" where
  "test_pattern_events priv =
     (if test_pattern priv \<noteq> 0 then
        [reg_write_event IMX219_REG_TP REG_VALUE_16BIT (ucast (test_pattern priv)),
         reg_write_event IMX219_REG_TP_WINDOW_WIDTH REG_VALUE_16BIT (width (cur_mode priv)),
         reg_write_event IMX219_REG_TP_WINDOW_HEIGHT REG_VALUE_16BIT (height (cur_mode priv))]
      else [reg_write_event IMX219_REG_TP REG_VALUE_16BIT 0])"

definition stream_enable_events :: "event list" where
  "stream_enable_events = table_events start"

definition stream_on_vts :: "imx219 \<Rightarrow> imx219" where
  "stream_on_vts priv =
     priv\<lparr>cur_vts := ucast (vts_def (cur_mode priv) - IMX219_EXP_LINES_MARGIN)\<rparr>"

text \<open>
  The start-streaming sequence in the words of the spec, as the bytes on the bus. A
  register write is the 16-bit register address followed by the 8-bit or 16-bit value,
  most significant byte first. The steps are: every entry of the active mode's register
  table before its sentinel address 0xffff; the orientation register 0x0172 with bit 0
  for the horizontal and bit 1 for the vertical flip; the test-pattern register 0x0600
  with the pattern, followed by the window width 0x0624 and height 0x0626 of the active
  mode when a pattern is selected, and with 0 otherwise; the mode-select register 0x0100
  with the value 1.
\<close>

definition write8 :: "u16 \<Rightarrow> u8 \<Rightarrow> event" where
  "write8 a v = I2C_Send [ucast (drop_bit 8 a), ucast a, v]"

definition write16 :: "u16 \<Rightarrow> u16 \<Rightarrow> event" where
  "write16 a v = I2C_Send [ucast (drop_bit 8 a), ucast a, ucast (drop_bit 8 v), ucast v]"

definition spec_replay :: "imx219 \<Rightarrow> event list" where
  "spec_replay priv =
     map (\<lambda>(a, v). write8 a v) (takeWhile (\<lambda>(a, v). a \<noteq> 0xffff) (reg_list (cur_mode priv)))"

definition spec_flip_bits :: "imx219 \<Rightarrow> u8" where
  "spec_flip_bits priv =
     (if hflip priv \<noteq> 0 then 1 else 0) + (if vflip priv \<noteq> 0 then 2 else 0)"

definition spec_orientation :: "imx219 \<Rightarrow> event" where
  "spec_orientation priv = write8 0x0172 (spec_flip_bits priv)"

definition spec_test_pattern :: "imx219 \<Rightarrow> event list" where
  "spec_test_pattern priv =
     (if test_pattern priv \<noteq> 0 then
        [write16 0x0600 (test_pattern priv),
         write16 0x0624 (ucast (width (cur_mode priv))),
         write16 0x0626 (ucast (height (cur_mode priv)))]
      else [write16 0x0600 0])"

definition spec_stream_enable :: "event list" where
  "spec_stream_enable = [write8 0x0100 0x01]"

text \<open>
  The value that a successful \<^verbatim>\<open>reg_read\<close> of \<open>len\<close> bytes delivers when it is the
  \<open>i\<close>-th call from the state \<open>c\<close> on; the five reads of the identity check; the read of
  the mode-select register.
\<close>

definition read_value :: "i2c_client \<Rightarrow> nat \<Rightarrow> nat \<Rightarrow> u32" where
  "read_value c i len =
     get_unaligned_be32 (replicate (4 - len) 0 @ map (xfer_byte c (length (trace c) + i)) [0 ..< len])"

definition probe_reads :: "event list" where
  "probe_reads =
     [reg_read_event IMX219_REG_MODEL_ID REG_VALUE_16BIT,
      reg_read_event IMX219_REG_LOT_ID_H REG_VALUE_08BIT,
      reg_read_event IMX219_REG_LOT_ID_M REG_VALUE_08BIT,
      reg_read_event IMX219_REG_LOT_ID_L REG_VALUE_08BIT,
      reg_read_event IMX219_REG_CHIP_ID REG_VALUE_16BIT]"

definition mode_select_read :: event where
  "mode_select_read = reg_read_event IMX219_REG_MODE_SELECT REG_VALUE_08BIT"

text \<open>
  The register writes that each control makes for itself: two for the gains, one for the
  exposure, the test pattern, each of the four test-pattern colours (the low 16 bits of
  the value) and the vertical blank, none for the flips and for an unknown identifier;
  and the state after the two flip cases.
\<close>

definition own_writes :: "imx219 \<Rightarrow> v4l2_cid \<Rightarrow> u32 \<Rightarrow> event list" where
  "own_writes priv cid v =
     (case cid of
        V4L2_CID_HFLIP \<Rightarrow> []
      | V4L2_CID_VFLIP \<Rightarrow> []
      | V4L2_CID_ANALOGUE_GAIN \<Rightarrow>
          [reg_write_event IMX219_REG_ANA_GAIN_GLOBAL_A REG_VALUE_08BIT
             (ucast (analogue_gain (gain_state priv v))),
           reg_write_event IMX219_REG_DIG_GAIN_GLOBAL_A REG_VALUE_16BIT
             (ucast (digital_gain (gain_state priv v)))]
      | V4L2_CID_GAIN \<Rightarrow>
          [reg_write_event IMX219_REG_ANA_GAIN_GLOBAL_A REG_VALUE_08BIT
             (ucast (analogue_gain (gain_state priv v))),
           reg_write_event IMX219_REG_DIG_GAIN_GLOBAL_A REG_VALUE_16BIT
             (ucast (digital_gain (gain_state priv v)))]
      | V4L2_CID_EXPOSURE \<Rightarrow>
          [reg_write_event IMX219_REG_EXPOSURE REG_VALUE_16BIT (ucast (ucast v :: u16))]
      | V4L2_CID_TEST_PATTERN \<Rightarrow>
          [reg_write_event IMX219_REG_TP REG_VALUE_16BIT
             (ucast (test_pattern_val ! nat (sint v)))]
      | V4L2_CID_TEST_PATTERN_RED \<Rightarrow>
          [reg_write_event IMX219_REG_TD_R REG_VALUE_16BIT (ucast (ucast v :: u16))]
      | V4L2_CID_TEST_PATTERN_GREENR \<Rightarrow>
          [reg_write_event IMX219_REG_TD_GR REG_VALUE_16BIT (ucast (ucast v :: u16))]
      | V4L2_CID_TEST_PATTERN_BLUE \<Rightarrow>
          [reg_write_event IMX219_REG_TD_B REG_VALUE_16BIT (ucast (ucast v :: u16))]
      | V4L2_CID_TEST_PATTERN_GREENB \<Rightarrow>
          [reg_write_event IMX219_REG_TD_GB REG_VALUE_16BIT (ucast (ucast v :: u16))]
      | V4L2_CID_VBLANK \<Rightarrow>
          [reg_write_event IMX219_REG_FRM_LENGTH_A REG_VALUE_16BIT
             (ucast (cur_vts (vblank_state priv v)))]
      | V4L2_CID_OTHER \<Rightarrow> [])"

definition flip_state :: "imx219 \<Rightarrow> v4l2_cid \<Rightarrow> u32 \<Rightarrow> imx219" where
  "flip_state priv cid v = (if cid = V4L2_CID_HFLIP then priv\<lparr>hflip := v\<rparr> else priv\<lparr>vflip := v\<rparr>)"

subsection \<open>Concrete inputs\<close>

text \<open>
  Three requests: one nearest to the first catalog entry, one nearest to the second, one at
  the top of the \<^verbatim>\<open>u32\<close> range.
\<close>

definition near_request :: v4l2_subdev_format where
  "near_request =
     \<lparr>which = 1, fmt_width = 2000, fmt_height = 1500, fmt_code = 0, fmt_field = 0\<rparr>"

definition large_request :: v4l2_subdev_format where
  "large_request =
     \<lparr>which = 1, fmt_width = 3000, fmt_height = 2000, fmt_code = 0, fmt_field = 0\<rparr>"

definition far_request :: v4l2_subdev_format where
  "far_request =
     \<lparr>which = 1, fmt_width = 0xFFFFFFFF, fmt_height = 1772, fmt_code = 0, fmt_field = 0\<rparr>"

text \<open>A driver state as \<^verbatim>\<open>imx219_probe\<close> leaves it, and a bus on which every transfer succeeds or fails.\<close>

definition sample_priv :: imx219 where
  "sample_priv =
     \<lparr>hflip = 0, vflip = 0, analogue_gain = 0, digital_gain = 256, exposure_time = 1575,
      test_pattern = 0, cur_mode = supported_modes ! 0, cfg_num = 2, cur_vts = 0\<rparr>"

definition bus_ok :: "nat \<Rightarrow> event \<Rightarrow> int" where
  "bus_ok n e = (case e of I2C_Send b \<Rightarrow> int (length b) | _ \<Rightarrow> 2)"

definition quiet_bus :: i2c_client where
  "quiet_bus = \<lparr>xfer_ret = bus_ok, xfer_byte = (\<lambda>n i. 0), trace = []\<rparr>"

definition dead_bus :: i2c_client where
  "dead_bus = \<lparr>xfer_ret = (\<lambda>n e. - 5), xfer_byte = (\<lambda>n i. 0), trace = []\<rparr>"

text \<open>A driver state with both flips set and the colour-bar test pattern selected.\<close>

definition flipped_priv :: imx219 where
  "flipped_priv = sample_priv\<lparr>hflip := 1, vflip := 1, test_pattern := 2\<rparr>"

text \<open>
  Buses: one that refuses the call number \<open>k\<close> only, one whose reads deliver the bytes
  \<open>b0\<close>, \<open>b1\<close>, and one whose reads deliver 1 (a sensor that is streaming).
\<close>

definition bus_failing_at :: "nat \<Rightarrow> i2c_client" where
  "bus_failing_at k =
     \<lparr>xfer_ret = (\<lambda>n e. if n = k then - 5 else bus_ok n e), xfer_byte = (\<lambda>n i. 0), trace = []\<rparr>"

definition probe_bus :: "u8 \<Rightarrow> u8 \<Rightarrow> i2c_client" where
  "probe_bus b0 b1 =
     \<lparr>xfer_ret = bus_ok, xfer_byte = (\<lambda>n i. if i = 0 then b0 else b1), trace = []\<rparr>"

definition streaming_bus :: i2c_client where
  "streaming_bus = \<lparr>xfer_ret = bus_ok, xfer_byte = (\<lambda>n i. 1), trace = []\<rparr>"

section \<open>Properties\<close>

subsection \<open>Mode selection\<close>

lemma sint_wi32: "- (2^31) \<le> k \<Longrightarrow> k < 2^31 \<Longrightarrow> sint (word_of_int k :: u32) = k"
  by (simp add: sint_sbintrunc' signed_take_bit_int_eq_self)

lemma abs_int_wi: "- (2^31) < k \<Longrightarrow> k < 2^31 \<Longrightarrow> abs_int (word_of_int k) = word_of_int \<bar>k\<bar>"
  by (simp add: abs_int_def sint_wi32)

text \<open>While the L1 distance fits a signed 32-bit \<^verbatim>\<open>int\<close>, the driver computes it exactly.\<close>

lemma reso_dist_l1:
  assumes "l1_dist m f < 2^31"
  shows "imx219_get_reso_dist m f = l1_dist m f"
proof -
  define dw where "dw = uint (width m) - uint (fmt_width f)"
  define dh where "dh = uint (height m) - uint (fmt_height f)"
  have s: "\<bar>dw\<bar> + \<bar>dh\<bar> < 2^31" using assms by (simp add: l1_dist_def dw_def dh_def)
  have w: "width m - fmt_width f = word_of_int dw" by (simp add: dw_def)
  have h: "height m - fmt_height f = word_of_int dh" by (simp add: dh_def)
  have aw: "abs_int (word_of_int dw) = word_of_int \<bar>dw\<bar>" using s by (intro abs_int_wi) linarith+
  have ah: "abs_int (word_of_int dh) = word_of_int \<bar>dh\<bar>" using s by (intro abs_int_wi) linarith+
  have "imx219_get_reso_dist m f = sint (word_of_int (\<bar>dw\<bar> + \<bar>dh\<bar>) :: u32)"
    by (simp add: imx219_get_reso_dist_def w h aw ah)
  also have "\<dots> = \<bar>dw\<bar> + \<bar>dh\<bar>" using s by (intro sint_wi32) linarith+
  finally show ?thesis by (simp add: l1_dist_def dw_def dh_def)
qed

lemma l1_dist_nonneg: "0 \<le> l1_dist m f"
  by (simp add: l1_dist_def)

text \<open>
  The loop invariant: after the first \<open>n\<close> entries the loop holds the first index of
  least distance among them, together with that distance.
\<close>

lemma best_fit_fold:
  assumes "\<forall>j < n. imx219_get_reso_dist (modes ! j) fmt = l1_dist (modes ! j) fmt" and "0 < n"
  shows "case fold (best_fit_step modes fmt) [0 ..< n] (0, - 1) of (i, d) \<Rightarrow>
           i < n \<and> d = l1_dist (modes ! i) fmt \<and>
           (\<forall>j < n. l1_dist (modes ! i) fmt \<le> l1_dist (modes ! j) fmt) \<and>
           (\<forall>j < i. l1_dist (modes ! i) fmt < l1_dist (modes ! j) fmt)"
  using assms
proof (induction n)
  case 0
  then show ?case by simp
next
  case (Suc k)
  show ?case
  proof (cases "k = 0")
    case True
    with Suc.prems show ?thesis by (simp add: best_fit_step_def)
  next
    case False
    obtain i d where st: "fold (best_fit_step modes fmt) [0 ..< k] (0, - 1) = (i, d)"
      by (cases "fold (best_fit_step modes fmt) [0 ..< k] (0, - 1)")
    from Suc.IH Suc.prems False st
    have ih: "i < k" "d = l1_dist (modes ! i) fmt"
      "\<forall>j < k. l1_dist (modes ! i) fmt \<le> l1_dist (modes ! j) fmt"
      "\<forall>j < i. l1_dist (modes ! i) fmt < l1_dist (modes ! j) fmt"
      by auto
    have dk: "imx219_get_reso_dist (modes ! k) fmt = l1_dist (modes ! k) fmt"
      using Suc.prems by simp
    have d0: "d \<noteq> - 1" using ih(2) l1_dist_nonneg [of "modes ! i" fmt] by simp
    show ?thesis
    proof (cases "l1_dist (modes ! k) fmt < d")
      case True
      then have "fold (best_fit_step modes fmt) [0 ..< Suc k] (0, - 1) = (k, l1_dist (modes ! k) fmt)"
        by (simp add: st best_fit_step_def dk d0)
      moreover have "\<forall>j < Suc k. l1_dist (modes ! k) fmt \<le> l1_dist (modes ! j) fmt"
        using True ih by (auto simp: less_Suc_eq intro: order.strict_implies_order less_le_trans)
      moreover have "\<forall>j < k. l1_dist (modes ! k) fmt < l1_dist (modes ! j) fmt"
        using True ih by (auto intro: less_le_trans)
      ultimately show ?thesis by simp
    next
      case False
      then have "fold (best_fit_step modes fmt) [0 ..< Suc k] (0, - 1) = (i, d)"
        by (simp add: st best_fit_step_def dk d0)
      moreover have "\<forall>j < Suc k. l1_dist (modes ! i) fmt \<le> l1_dist (modes ! j) fmt"
        using False ih by (auto simp: less_Suc_eq)
      ultimately show ?thesis using ih by simp
    qed
  qed
qed

lemma near_request_dists: "\<forall>m \<in> set supported_modes. l1_dist m near_request < 2^31"
  by (simp add: supported_modes_def near_request_def l1_dist_def)

text \<open>The selection in terms of the L1 distance, while it fits 32 bits.\<close>

lemma best_fit_l1_min:
  assumes "\<forall>m \<in> set supported_modes. l1_dist m fmt < 2^31"
  shows "\<exists>i < length supported_modes.
           imx219_find_best_fit fmt = supported_modes ! i \<and>
           (\<forall>j < length supported_modes.
              l1_dist (supported_modes ! i) fmt \<le> l1_dist (supported_modes ! j) fmt) \<and>
           (\<forall>j < i. l1_dist (supported_modes ! i) fmt < l1_dist (supported_modes ! j) fmt)"
proof -
  have len: "0 < length supported_modes" by (simp add: supported_modes_def)
  have eq: "\<forall>j < length supported_modes.
      imx219_get_reso_dist (supported_modes ! j) fmt = l1_dist (supported_modes ! j) fmt"
    using assms by (auto intro!: reso_dist_l1)
  obtain i d where st:
    "fold (best_fit_step supported_modes fmt) [0 ..< length supported_modes] (0, - 1) = (i, d)"
    by (cases "fold (best_fit_step supported_modes fmt) [0 ..< length supported_modes] (0, - 1)")
  from best_fit_fold [OF eq len] st
  have "i < length supported_modes \<and>
        (\<forall>j < length supported_modes.
              l1_dist (supported_modes ! i) fmt \<le> l1_dist (supported_modes ! j) fmt) \<and>
           (\<forall>j < i. l1_dist (supported_modes ! i) fmt < l1_dist (supported_modes ! j) fmt)"
    by simp
  moreover have "imx219_find_best_fit fmt = supported_modes ! i"
    by (simp add: imx219_find_best_fit_def best_fit_index_def st)
  ultimately show ?thesis by blast
qed


text \<open>
  C1 (amended). Whenever the L1 distance from the requested width and height to every
  catalog entry is below \<open>2^31\<close>, so that it fits the driver's signed 32-bit distance,
  \<^verbatim>\<open>imx219_find_best_fit\<close> returns a catalog entry of least L1 distance
  \<open>|entry.width - requested.width| + |entry.height - requested.height|\<close> over the whole
  catalog, and among entries of equal distance the one of lowest index.
\<close>

theorem find_best_fit_l1:
  assumes "\<forall>m \<in> set supported_modes. l1_dist m fmt < 2^31"
  shows "\<exists>i < length supported_modes.
           imx219_find_best_fit fmt = supported_modes ! i \<and>
           (\<forall>j < length supported_modes.
              l1_dist (supported_modes ! i) fmt \<le> l1_dist (supported_modes ! j) fmt) \<and>
           (\<forall>j < i. l1_dist (supported_modes ! i) fmt < l1_dist (supported_modes ! j) fmt)"
  using assms by (rule best_fit_l1_min)

text \<open>The request 2000 x 1500 satisfies the hypothesis.\<close>

theorem find_best_fit_l1_witness:
  "l1_dist (supported_modes ! 0) near_request < 2^31 \<and>
   l1_dist (supported_modes ! 1) near_request < 2^31 \<and>
   imx219_find_best_fit near_request = supported_modes ! 0 \<and>
   l1_dist (supported_modes ! 0) near_request \<le> l1_dist (supported_modes ! 1) near_request"
proof -
  have d: "l1_dist (supported_modes ! 0) near_request = 500"
    "l1_dist (supported_modes ! 1) near_request = 2244"
    by (simp_all add: supported_modes_def near_request_def l1_dist_def)
  have n: "length supported_modes = 2" by (simp add: supported_modes_def)
  from find_best_fit_l1 [OF near_request_dists] obtain i where i: "i < 2"
    "imx219_find_best_fit near_request = supported_modes ! i"
    "\<forall>j < 2. l1_dist (supported_modes ! i) near_request \<le> l1_dist (supported_modes ! j) near_request"
    unfolding n by blast
  from i(3) have "l1_dist (supported_modes ! i) near_request
      \<le> l1_dist (supported_modes ! 0) near_request"
    by simp
  then have "l1_dist (supported_modes ! i) near_request \<le> 500"
    using d(1) by simp
  with i(1) d have "i = 0" by (cases "i = 1") auto
  with i(2) d show ?thesis by simp
qed

text \<open>
  For the request 4294967295 x 1772 the difference \<open>1920 - 4294967295\<close> wraps to 1921:
  the driver returns the 1920 x 1080 entry although the 3280 x 2464 entry is nearer.
\<close>

theorem find_best_fit_far_counterexample:
  "imx219_find_best_fit far_request = supported_modes ! 0 \<and>
   l1_dist (supported_modes ! 1) far_request < l1_dist (supported_modes ! 0) far_request"
  by (simp add: imx219_find_best_fit_def best_fit_index_def best_fit_step_def supported_modes_def
      far_request_def imx219_get_reso_dist_def abs_int_def l1_dist_def Let_def)

text \<open>The spec's example: 2000 x 1500 selects the 1920 x 1080 entry.\<close>

lemma near_request_selects: "imx219_find_best_fit near_request = supported_modes ! 0"
  by (simp add: imx219_find_best_fit_def best_fit_index_def best_fit_step_def supported_modes_def
      near_request_def imx219_get_reso_dist_def abs_int_def Let_def)

text \<open>Requests with width and height below \<open>2^30\<close> are within the hypothesis of C1.\<close>

lemma l1_dist_small:
  assumes "m \<in> set supported_modes" and "uint (fmt_width fmt) < 2^30"
    and "uint (fmt_height fmt) < 2^30"
  shows "l1_dist m fmt < 2^31"
proof -
  define w h where "w = uint (fmt_width fmt)" and "h = uint (fmt_height fmt)"
  have b: "0 \<le> w" "0 \<le> h" "w < 2^30" "h < 2^30"
    using assms(2,3) by (simp_all add: w_def h_def)
  have "\<bar>1920 - w\<bar> + \<bar>1080 - h\<bar> < 2^31" "\<bar>3280 - w\<bar> + \<bar>2464 - h\<bar> < 2^31"
    using b by simp_all
  with assms(1) show ?thesis
    by (auto simp: supported_modes_def l1_dist_def w_def h_def)
qed

subsection \<open>Setting and getting the format\<close>

lemma best_fit_index_bound: "best_fit_index supported_modes fmt < length supported_modes"
  by (simp add: best_fit_index_def best_fit_step_def supported_modes_def Let_def
      upt_rec [of 0] upt_rec [of 1])

lemma find_best_fit_in_catalog: "imx219_find_best_fit fmt \<in> set supported_modes"
  unfolding imx219_find_best_fit_def by (rule nth_mem) (rule best_fit_index_bound)

text \<open>
  C2 (amended). \<^verbatim>\<open>imx219_set_fmt\<close> returns 0 for every request. For a request on the
  active format (\<^verbatim>\<open>which\<close> is not \<^verbatim>\<open>V4L2_SUBDEV_FORMAT_TRY\<close>) it makes a catalog entry
  the current mode and overwrites the request's width, height and code with that entry's
  values, and \<^verbatim>\<open>imx219_get_fmt\<close> on the resulting state returns 0 and that entry's
  width, height and bus format. Whenever the L1 distance from the request to every catalog
  entry is below \<open>2^31\<close>, that entry is the best fit: of least L1 distance over the
  catalog, and of lowest index among the entries of that distance.
\<close>

theorem set_fmt_active:
  "fst (imx219_set_fmt priv c fmt) = 0 \<and>
   (which fmt \<noteq> V4L2_SUBDEV_FORMAT_TRY \<longrightarrow>
     (\<exists>i < length supported_modes.
        (\<exists>c'. imx219_set_fmt priv c fmt =
           (0,
            fmt\<lparr>fmt_code := bus_fmt (supported_modes ! i),
                fmt_width := width (supported_modes ! i),
                fmt_height := height (supported_modes ! i),
                fmt_field := V4L2_FIELD_NONE\<rparr>,
            priv\<lparr>cur_mode := supported_modes ! i\<rparr>, c')) \<and>
        (\<forall>q. which q \<noteq> V4L2_SUBDEV_FORMAT_TRY \<longrightarrow>
           imx219_get_fmt (priv\<lparr>cur_mode := supported_modes ! i\<rparr>) q =
             (0, q\<lparr>fmt_width := width (supported_modes ! i),
                   fmt_height := height (supported_modes ! i),
                   fmt_code := bus_fmt (supported_modes ! i),
                   fmt_field := V4L2_FIELD_NONE\<rparr>)) \<and>
        ((\<forall>m \<in> set supported_modes. l1_dist m fmt < 2^31) \<longrightarrow>
           (\<forall>j < length supported_modes.
              l1_dist (supported_modes ! i) fmt \<le> l1_dist (supported_modes ! j) fmt) \<and>
           (\<forall>j < i. l1_dist (supported_modes ! i) fmt < l1_dist (supported_modes ! j) fmt))))"
proof -
  have r: "fst (imx219_set_fmt priv c fmt) = 0"
    by (simp add: imx219_set_fmt_def Let_def)
  define i where "i = best_fit_index supported_modes fmt"
  have i: "i < length supported_modes" and m: "imx219_find_best_fit fmt = supported_modes ! i"
    by (simp_all add: i_def best_fit_index_bound imx219_find_best_fit_def)
  have s: "which fmt \<noteq> V4L2_SUBDEV_FORMAT_TRY \<Longrightarrow>
      \<exists>c'. imx219_set_fmt priv c fmt =
           (0,
            fmt\<lparr>fmt_code := bus_fmt (supported_modes ! i),
                fmt_width := width (supported_modes ! i),
                fmt_height := height (supported_modes ! i),
                fmt_field := V4L2_FIELD_NONE\<rparr>,
            priv\<lparr>cur_mode := supported_modes ! i\<rparr>, c')"
    by (simp add: imx219_set_fmt_def Let_def m)
  have g: "\<forall>q. which q \<noteq> V4L2_SUBDEV_FORMAT_TRY \<longrightarrow>
           imx219_get_fmt (priv\<lparr>cur_mode := supported_modes ! i\<rparr>) q =
             (0, q\<lparr>fmt_width := width (supported_modes ! i),
                   fmt_height := height (supported_modes ! i),
                   fmt_code := bus_fmt (supported_modes ! i),
                   fmt_field := V4L2_FIELD_NONE\<rparr>)"
    by (simp add: imx219_get_fmt_def Let_def)
  have b: "(\<forall>m \<in> set supported_modes. l1_dist m fmt < 2^31) \<longrightarrow>
           (\<forall>j < length supported_modes.
              l1_dist (supported_modes ! i) fmt \<le> l1_dist (supported_modes ! j) fmt) \<and>
           (\<forall>j < i. l1_dist (supported_modes ! i) fmt < l1_dist (supported_modes ! j) fmt)"
  proof
    assume h: "\<forall>m \<in> set supported_modes. l1_dist m fmt < 2^31"
    from best_fit_l1_min [OF h] obtain k where k: "k < length supported_modes"
      "imx219_find_best_fit fmt = supported_modes ! k"
      "\<forall>j < length supported_modes.
         l1_dist (supported_modes ! k) fmt \<le> l1_dist (supported_modes ! j) fmt"
      "\<forall>j < k. l1_dist (supported_modes ! k) fmt < l1_dist (supported_modes ! j) fmt"
      by blast
    have "distinct supported_modes" by (simp add: supported_modes_def)
    with k(1,2) i m have "k = i" by (simp add: nth_eq_iff_index_eq)
    with k(3,4) show "(\<forall>j < length supported_modes.
              l1_dist (supported_modes ! i) fmt \<le> l1_dist (supported_modes ! j) fmt) \<and>
           (\<forall>j < i. l1_dist (supported_modes ! i) fmt < l1_dist (supported_modes ! j) fmt)"
      by simp
  qed
  from r i s g b show ?thesis by blast
qed

text \<open>
  The request 3000 x 2000 on the active format, from the initial state whose mode is the
  first entry: it comes back as 3280 x 2464, the second entry, which is the nearer one.
\<close>

theorem set_fmt_active_witness:
  "which large_request \<noteq> V4L2_SUBDEV_FORMAT_TRY \<and>
   l1_dist (supported_modes ! 0) large_request < 2^31 \<and>
   l1_dist (supported_modes ! 1) large_request < 2^31 \<and>
   l1_dist (supported_modes ! 1) large_request < l1_dist (supported_modes ! 0) large_request \<and>
   (\<exists>c'. imx219_set_fmt sample_priv quiet_bus large_request =
      (0,
       large_request\<lparr>fmt_code := MEDIA_BUS_FMT_SRGGB10_1X10, fmt_width := 3280,
                     fmt_height := 2464, fmt_field := V4L2_FIELD_NONE\<rparr>,
       sample_priv\<lparr>cur_mode := supported_modes ! 1\<rparr>, c')) \<and>
   imx219_get_fmt (sample_priv\<lparr>cur_mode := supported_modes ! 1\<rparr>) large_request =
     (0, large_request\<lparr>fmt_width := 3280, fmt_height := 2464,
                       fmt_code := MEDIA_BUS_FMT_SRGGB10_1X10, fmt_field := V4L2_FIELD_NONE\<rparr>)"
proof -
  have w: "which large_request \<noteq> V4L2_SUBDEV_FORMAT_TRY"
    by (simp add: large_request_def V4L2_SUBDEV_FORMAT_TRY_def)
  have d: "l1_dist (supported_modes ! 0) large_request = 2000"
    "l1_dist (supported_modes ! 1) large_request = 744"
    by (simp_all add: supported_modes_def large_request_def l1_dist_def)
  have n: "length supported_modes = 2" by (simp add: supported_modes_def)
  have h: "\<forall>m \<in> set supported_modes. l1_dist m large_request < 2^31"
    by (simp add: supported_modes_def large_request_def l1_dist_def)
  have m: "width (supported_modes ! 1) = 3280" "height (supported_modes ! 1) = 2464"
    "bus_fmt (supported_modes ! 1) = MEDIA_BUS_FMT_SRGGB10_1X10"
    by (simp_all add: supported_modes_def)
  from set_fmt_active [of sample_priv quiet_bus large_request] w h
  obtain i where i: "i < 2"
    "\<exists>c'. imx219_set_fmt sample_priv quiet_bus large_request =
       (0,
        large_request\<lparr>fmt_code := bus_fmt (supported_modes ! i),
            fmt_width := width (supported_modes ! i),
            fmt_height := height (supported_modes ! i),
            fmt_field := V4L2_FIELD_NONE\<rparr>,
        sample_priv\<lparr>cur_mode := supported_modes ! i\<rparr>, c')"
    "\<forall>q. which q \<noteq> V4L2_SUBDEV_FORMAT_TRY \<longrightarrow>
       imx219_get_fmt (sample_priv\<lparr>cur_mode := supported_modes ! i\<rparr>) q =
         (0, q\<lparr>fmt_width := width (supported_modes ! i),
               fmt_height := height (supported_modes ! i),
               fmt_code := bus_fmt (supported_modes ! i),
               fmt_field := V4L2_FIELD_NONE\<rparr>)"
    "\<forall>j < 2. l1_dist (supported_modes ! i) large_request
        \<le> l1_dist (supported_modes ! j) large_request"
    unfolding n by blast
  from i(4) have "l1_dist (supported_modes ! i) large_request
      \<le> l1_dist (supported_modes ! 1) large_request"
    by simp
  then have "l1_dist (supported_modes ! i) large_request \<le> 744" using d(2) by simp
  with i(1) d have i1: "i = 1" by (cases "i = 0") auto
  from i(2) i(3) w show ?thesis
    by (simp add: i1 m [unfolded One_nat_def] d [unfolded One_nat_def])
qed

text \<open>
  The request 4294967295 x 1772 on the active format: the 1920 x 1080 entry is installed
  and returned although the 3280 x 2464 entry is nearer.
\<close>

theorem set_fmt_far_counterexample:
  "imx219_set_fmt sample_priv quiet_bus far_request =
     (0,
      far_request\<lparr>fmt_code := MEDIA_BUS_FMT_SRGGB10_1X10, fmt_width := 1920,
                   fmt_height := 1080, fmt_field := V4L2_FIELD_NONE\<rparr>,
      sample_priv\<lparr>cur_mode := supported_modes ! 0\<rparr>,
      quiet_bus\<lparr>trace := [Modify_Range HBLANK 1524 1524 1 1524,
                          Modify_Range VBLANK 683 64455 1 683,
                          Modify_Range PIXEL_RATE 182153160 182153160 1 182153160]\<rparr>) \<and>
   l1_dist (supported_modes ! 1) far_request < l1_dist (supported_modes ! 0) far_request"
proof -
  have f: "imx219_find_best_fit far_request = supported_modes ! 0"
    by (simp add: imx219_find_best_fit_def best_fit_index_def best_fit_step_def
        supported_modes_def far_request_def imx219_get_reso_dist_def abs_int_def Let_def)
  have w: "which far_request \<noteq> V4L2_SUBDEV_FORMAT_TRY"
    by (simp add: far_request_def V4L2_SUBDEV_FORMAT_TRY_def)
  have m: "supported_modes ! 0 =
    \<lparr>bus_fmt = MEDIA_BUS_FMT_SRGGB10_1X10, width = 1920, height = 1080,
      max_fps_numerator = 10000, max_fps_denominator = 300000,
      hts_def = 3444, vts_def = 0x06E3,
      reg_list = imx219_init_tab_1920_1080_30fps, hdr_mode = NO_HDR, freq_idx = 0\<rparr>"
    by (simp add: supported_modes_def IMX219_EXP_LINES_MARGIN_def)
  have s: "imx219_set_fmt sample_priv quiet_bus far_request =
     (0,
      far_request\<lparr>fmt_code := MEDIA_BUS_FMT_SRGGB10_1X10, fmt_width := 1920,
                   fmt_height := 1080, fmt_field := V4L2_FIELD_NONE\<rparr>,
      sample_priv\<lparr>cur_mode := supported_modes ! 0\<rparr>,
      quiet_bus\<lparr>trace := [Modify_Range HBLANK 1524 1524 1 1524,
                          Modify_Range VBLANK 683 64455 1 683,
                          Modify_Range PIXEL_RATE 182153160 182153160 1 182153160]\<rparr>)"
    using w
    by (simp add: imx219_set_fmt_def Let_def f)
       (simp add: m v4l2_ctrl_modify_range_def emit_def quiet_bus_def mode_pixel_rate_def
          mode_fps_def DIV_ROUND_CLOSEST_def IMX219_VTS_MAX_def)
  have l: "l1_dist (supported_modes ! 1) far_request < l1_dist (supported_modes ! 0) far_request"
    by (simp add: supported_modes_def far_request_def l1_dist_def)
  from s l show ?thesis by simp
qed

subsection \<open>Register writes\<close>

lemma trace_emit: "trace (emit c e) = trace c @ [e]" by (simp add: emit_def)
lemma xfer_ret_emit: "xfer_ret (emit c e) = xfer_ret c" by (simp add: emit_def)
lemma xfer_byte_emit: "xfer_byte (emit c e) = xfer_byte c" by (simp add: emit_def)

lemma accepted_emit: "accepted (emit c e) i e' = accepted c (Suc i) e'"
  by (simp add: accepted_def trace_emit xfer_ret_emit)

lemma length_reg_write_buf: "length (reg_write_buf a len d) = 6"
  by (simp add: reg_write_buf_def put_unaligned_be16_def put_unaligned_be32_def)

lemma reg_write_eq:
  "len \<le> 4 \<Longrightarrow> reg_write c a len d =
     ((if accepted c 0 (reg_write_event a len d) then 0 else - EIO),
      emit c (reg_write_event a len d))"
  by (simp add: reg_write_def i2c_master_send_def reg_write_event_def accepted_def
      length_reg_write_buf min_def)

lemma reg_write_event_8:
  "reg_write_event a REG_VALUE_08BIT (ucast (x :: u8)) = I2C_Send [ucast (drop_bit 8 a), ucast a, x]"
  apply (simp add: reg_write_event_def reg_write_buf_def REG_VALUE_08BIT_def put_unaligned_be16_def put_unaligned_be32_def)
  apply (rule bit_word_eqI)
  apply (auto simp: bit_simps)
  done

lemma reg_write_event_16:
  "reg_write_event a REG_VALUE_16BIT (ucast (x :: u16)) =
     I2C_Send [ucast (drop_bit 8 a), ucast a, ucast (drop_bit 8 x), ucast x]"
  apply (simp add: reg_write_event_def reg_write_buf_def REG_VALUE_16BIT_def put_unaligned_be16_def put_unaligned_be32_def)
  apply (rule conjI; rule bit_word_eqI; auto simp: bit_simps)
  done


subsection \<open>The gain control\<close>

lemma uint_gain_clamp:
  assumes "uint v \<le> 65535"
  shows "uint (gain_clamp v) = spec_gain_clamp (uint v)"
proof -
  have u: "uint (ucast v :: u16) = uint v"
    using assms by (simp add: unsigned_ucast_eq take_bit_int_eq_self)
  show ?thesis
    by (simp add: gain_clamp_def Let_def spec_gain_clamp_def word_less_def u)
qed

lemma uint_wi16: "0 \<le> k \<Longrightarrow> k < 65536 \<Longrightarrow> uint (word_of_int k :: u16) = k"
  by (simp add: uint_word_of_int take_bit_int_eq_self)

lemma uint_wi8: "0 \<le> k \<Longrightarrow> k < 256 \<Longrightarrow> uint (word_of_int k :: u8) = k"
  by (simp add: uint_word_of_int take_bit_int_eq_self)

lemma gain_clamp_range:
  "256 \<le> uint (gain_clamp v) \<and> uint (gain_clamp v) \<le> 43663"
  by (simp add: gain_clamp_def Let_def word_less_def)

lemma gain_split_spec:
  assumes "256 \<le> uint g" "uint g \<le> 43663"
  shows "uint (fst (gain_split g)) = spec_analog_portion (uint g)"
    and "uint (snd (gain_split g)) = spec_digital_portion_trunc (uint g)"
proof -
  have d: "0 \<le> uint g * 256 div 2728" "uint g * 256 div 2728 < 65536"
    using assms by auto
  show "uint (fst (gain_split g)) = spec_analog_portion (uint g)"
    using assms by (simp add: gain_split_def spec_analog_portion_def word_le_def Let_def)
  show "uint (snd (gain_split g)) = spec_digital_portion_trunc (uint g)"
    using assms d
    by (simp add: gain_split_def spec_digital_portion_trunc_def word_le_def Let_def uint_wi16)
qed

lemma gain_split_fst_range:
  assumes "256 \<le> uint g"
  shows "256 \<le> uint (fst (gain_split g)) \<and> uint (fst (gain_split g)) \<le> 2728"
  using assms by (simp add: gain_split_def word_le_def Let_def)

lemma analogue_gain_code_spec:
  assumes "256 \<le> uint a" "uint a \<le> 2728"
  shows "uint (analogue_gain_code a) = spec_analog_code (uint a)"
proof -
  define k where "k = 256 - 65536 div uint a"
  have "65536 div uint a \<le> 65536 div 256"
    using assms by (intro zdiv_mono2) auto
  moreover have "65536 div 2728 \<le> 65536 div uint a"
    using assms by (intro zdiv_mono2) auto
  ultimately have b: "0 \<le> k" "k \<le> 232" by (simp_all add: k_def)
  then have u: "uint (word_of_int k :: u8) = k"
    by (intro uint_wi8) auto
  have nl: "\<not> a < 256" using assms by (simp add: word_less_def)
  have "analogue_gain_code a = (if (word_of_int k :: u8) > 232 then 232 else word_of_int k)"
    by (simp add: analogue_gain_code_def Let_def nl k_def)
  then have "uint (analogue_gain_code a) = k"
    using b by (simp add: word_less_def u)
  moreover have "spec_analog_code (uint a) = k"
    using assms b by (simp add: spec_analog_code_def k_def)
  ultimately show ?thesis by simp
qed

lemma digital_gain_code_spec: "uint (digital_gain_code d) = spec_digital_code (uint d)"
  by (simp add: digital_gain_code_def Let_def spec_digital_code_def word_less_def)

lemma or_status:
  "((if a then 0 else - EIO) OR (if b then 0 else - EIO)) = (if a \<and> b then 0 else - EIO)"
  by (simp add: EIO_def)

lemma s_ctrl_gain_eq:
  "s_ctrl_gain priv c v =
     ((if accepted c 0 (reg_write_event IMX219_REG_ANA_GAIN_GLOBAL_A REG_VALUE_08BIT
                          (ucast (analogue_gain (gain_state priv v)))) \<and>
          accepted c 1 (reg_write_event IMX219_REG_DIG_GAIN_GLOBAL_A REG_VALUE_16BIT
                          (ucast (digital_gain (gain_state priv v))))
       then 0 else - EIO),
      gain_state priv v,
      emit (emit c (reg_write_event IMX219_REG_ANA_GAIN_GLOBAL_A REG_VALUE_08BIT
                      (ucast (analogue_gain (gain_state priv v)))))
           (reg_write_event IMX219_REG_DIG_GAIN_GLOBAL_A REG_VALUE_16BIT
              (ucast (digital_gain (gain_state priv v)))))"
  by (simp add: s_ctrl_gain_def gain_state_def Let_def reg_write_eq REG_VALUE_08BIT_def
      REG_VALUE_16BIT_def accepted_emit or_status split: prod.split)

text \<open>
  C3 (amended). For every gain value from 0 to 65535 (the registered control ranges lie
  within), the gain control clamps it to [256, 43663]; if the clamped gain is at most 2728
  the analog portion is the gain and the digital portion is 256, otherwise the analog
  portion is 2728 and the digital portion is gain * 256 / 2728 truncated (not rounded);
  the stored analog code is 256 - 65536 / analog portion clamped to [0, 232] and the
  stored digital code is the digital portion clamped to [256, 4095].
\<close>

theorem s_ctrl_gain_codes:
  assumes "cid = V4L2_CID_GAIN \<or> cid = V4L2_CID_ANALOGUE_GAIN" and "uint v \<le> 65535"
  shows "\<exists>ret priv' c'. imx219_s_ctrl priv c cid v = Some (ret, v, priv', c') \<and>
     uint (analogue_gain priv') =
       spec_analog_code (spec_analog_portion (spec_gain_clamp (uint v))) \<and>
     uint (digital_gain priv') =
       spec_digital_code (spec_digital_portion_trunc (spec_gain_clamp (uint v)))"
proof -
  define g where "g = gain_clamp v"
  have r: "256 \<le> uint g" "uint g \<le> 43663"
    using gain_clamp_range [of v] by (simp_all add: g_def)
  have gu: "uint g = spec_gain_clamp (uint v)"
    using assms(2) by (simp add: g_def uint_gain_clamp)
  have a: "uint (analogue_gain_code (fst (gain_split g))) =
      spec_analog_code (spec_analog_portion (uint g))"
    using gain_split_fst_range [OF r(1)] gain_split_spec(1) [OF r]
    by (simp add: analogue_gain_code_spec)
  have d: "uint (digital_gain_code (snd (gain_split g))) =
      spec_digital_code (spec_digital_portion_trunc (uint g))"
    using gain_split_spec(2) [OF r] by (simp add: digital_gain_code_spec)
  have "\<exists>ret c'. imx219_s_ctrl priv c cid v = Some (ret, v, gain_state priv v, c')"
    using assms(1) by (auto simp: imx219_s_ctrl_def with_val_def s_ctrl_gain_eq)
  moreover have "uint (analogue_gain (gain_state priv v)) =
      spec_analog_code (spec_analog_portion (spec_gain_clamp (uint v)))"
    using a gu by (simp add: gain_state_def g_def)
  moreover have "uint (digital_gain (gain_state priv v)) =
      spec_digital_code (spec_digital_portion_trunc (spec_gain_clamp (uint v)))"
    using d gu by (simp add: gain_state_def g_def)
  ultimately show ?thesis by blast
qed

text \<open>The two examples of the spec: 43663 gives digital code 4095, 2728 gives 232 and 256.\<close>

theorem s_ctrl_gain_codes_witness:
  "uint (43663 :: u32) \<le> 65535 \<and> uint (2728 :: u32) \<le> 65535 \<and>
   (\<exists>ret priv' c'.
      imx219_s_ctrl sample_priv quiet_bus V4L2_CID_GAIN 43663 = Some (ret, 43663, priv', c') \<and>
      uint (analogue_gain priv') = 232 \<and> uint (digital_gain priv') = 4095) \<and>
   (\<exists>ret priv' c'.
      imx219_s_ctrl sample_priv quiet_bus V4L2_CID_GAIN 2728 = Some (ret, 2728, priv', c') \<and>
      uint (analogue_gain priv') = 232 \<and> uint (digital_gain priv') = 256)"
proof -
  have s1: "spec_analog_code (spec_analog_portion (spec_gain_clamp 43663)) = 232"
    "spec_digital_code (spec_digital_portion_trunc (spec_gain_clamp 43663)) = 4095"
    "spec_analog_code (spec_analog_portion (spec_gain_clamp 2728)) = 232"
    "spec_digital_code (spec_digital_portion_trunc (spec_gain_clamp 2728)) = 256"
    by (simp_all add: spec_analog_code_def spec_analog_portion_def spec_gain_clamp_def
        spec_digital_code_def spec_digital_portion_trunc_def)
  have h1: "uint (43663 :: u32) \<le> 65535" and h2: "uint (2728 :: u32) \<le> 65535" by simp_all
  from s_ctrl_gain_codes [of V4L2_CID_GAIN 43663 sample_priv quiet_bus]
    s_ctrl_gain_codes [of V4L2_CID_GAIN 2728 sample_priv quiet_bus] h1 h2
  show ?thesis by (simp add: s1)
qed

text \<open>
  At gain 2734 the quotient 2734 * 256 / 2728 is 256.56: the driver stores 256, rounding
  to nearest gives 257.
\<close>

theorem s_ctrl_gain_round_counterexample:
  "imx219_s_ctrl sample_priv quiet_bus V4L2_CID_GAIN 2734 =
     Some (0, 2734, sample_priv\<lparr>analogue_gain := 232, digital_gain := 256\<rparr>,
           quiet_bus\<lparr>trace := [I2C_Send [0x01, 0x57, 0xE8], I2C_Send [0x01, 0x58, 0x01, 0x00]]\<rparr>) \<and>
   spec_digital_code (spec_digital_portion_round (spec_gain_clamp 2734)) = 257"
  by (simp add: imx219_s_ctrl_def with_val_def s_ctrl_gain_def gain_clamp_def gain_split_def
     analogue_gain_code_def digital_gain_code_def Let_def reg_write_def i2c_master_send_def
     reg_write_buf_def put_unaligned_be16_def put_unaligned_be32_def emit_def quiet_bus_def
     sample_priv_def REG_VALUE_08BIT_def REG_VALUE_16BIT_def IMX219_REG_ANA_GAIN_GLOBAL_A_def
     IMX219_REG_DIG_GAIN_GLOBAL_A_def EIO_def bus_ok_def
     spec_digital_code_def spec_digital_portion_round_def spec_gain_clamp_def round_div_def)

text \<open>
  C4 (amended). Applying a gain control emits exactly two register writes, the 8-bit
  analog-gain register first, then the 16-bit digital-gain register; both are always
  attempted, also when the first fails, and the status returned is the OR of the two
  statuses: 0 when the bus accepts both writes, \<^verbatim>\<open>-EIO\<close> when it refuses either.
\<close>

theorem s_ctrl_gain_writes:
  assumes "cid = V4L2_CID_GAIN \<or> cid = V4L2_CID_ANALOGUE_GAIN"
  shows "\<exists>ret priv' c'. imx219_s_ctrl priv c cid v = Some (ret, v, priv', c') \<and>
     trace c' = trace c @
       [reg_write_event IMX219_REG_ANA_GAIN_GLOBAL_A REG_VALUE_08BIT (ucast (analogue_gain priv')),
        reg_write_event IMX219_REG_DIG_GAIN_GLOBAL_A REG_VALUE_16BIT (ucast (digital_gain priv'))] \<and>
     ret = (if accepted c 0 (reg_write_event IMX219_REG_ANA_GAIN_GLOBAL_A REG_VALUE_08BIT
                               (ucast (analogue_gain priv'))) \<and>
               accepted c 1 (reg_write_event IMX219_REG_DIG_GAIN_GLOBAL_A REG_VALUE_16BIT
                               (ucast (digital_gain priv')))
            then 0 else - EIO)"
  using assms by (auto simp: imx219_s_ctrl_def with_val_def s_ctrl_gain_eq trace_emit)

text \<open>On a bus that refuses every transfer, both writes are in the trace.\<close>

theorem s_ctrl_gain_writes_witness:
  "\<exists>priv' c'.
     imx219_s_ctrl sample_priv dead_bus V4L2_CID_GAIN 2728 = Some (- EIO, 2728, priv', c') \<and>
     trace c' =
       [reg_write_event IMX219_REG_ANA_GAIN_GLOBAL_A REG_VALUE_08BIT (ucast (analogue_gain priv')),
        reg_write_event IMX219_REG_DIG_GAIN_GLOBAL_A REG_VALUE_16BIT (ucast (digital_gain priv'))]"
  using s_ctrl_gain_writes [of V4L2_CID_GAIN sample_priv dead_bus 2728]
  by (simp add: accepted_def dead_bus_def reg_write_event_def)

text \<open>
  The first write alone returns \<^verbatim>\<open>-EIO\<close> on that bus, and the gain control still
  sends the digital-gain write after it.
\<close>

theorem s_ctrl_gain_second_write_counterexample:
  "fst (reg_write dead_bus IMX219_REG_ANA_GAIN_GLOBAL_A REG_VALUE_08BIT 232) = - EIO \<and>
   imx219_s_ctrl sample_priv dead_bus V4L2_CID_GAIN 2728 =
     Some (- EIO, 2728, sample_priv\<lparr>analogue_gain := 232, digital_gain := 256\<rparr>,
           dead_bus\<lparr>trace := [I2C_Send [0x01, 0x57, 0xE8], I2C_Send [0x01, 0x58, 0x01, 0x00]]\<rparr>)"
  by (simp add: imx219_s_ctrl_def with_val_def s_ctrl_gain_def gain_clamp_def gain_split_def
     analogue_gain_code_def digital_gain_code_def Let_def reg_write_def i2c_master_send_def
     reg_write_buf_def put_unaligned_be16_def put_unaligned_be32_def emit_def dead_bus_def
     sample_priv_def REG_VALUE_08BIT_def REG_VALUE_16BIT_def IMX219_REG_ANA_GAIN_GLOBAL_A_def
     IMX219_REG_DIG_GAIN_GLOBAL_A_def EIO_def)


subsection \<open>The vertical-blank control\<close>

lemma ucast_of_sint_eq:
  fixes x :: u32 and y :: u16
  assumes "sint x = uint y"
  shows "ucast x = y"
proof -
  have "x = word_of_int (sint x)" by simp
  also have "\<dots> = word_of_int (uint y)" using assms by simp
  also have "\<dots> = ucast y" by simp
  finally have "x = ucast y" .
  then show ?thesis
    by (simp add: ucast_up_ucast_id is_up)
qed

lemma s_ctrl_vblank_eq:
  "s_ctrl_vblank priv c v =
     ((if accepted c 0 (reg_write_event IMX219_REG_FRM_LENGTH_A REG_VALUE_16BIT
                          (ucast (cur_vts (vblank_state priv v))))
       then 0 else - EIO),
      vblank_raise priv v, vblank_state priv v,
      emit c (reg_write_event IMX219_REG_FRM_LENGTH_A REG_VALUE_16BIT
                (ucast (cur_vts (vblank_state priv v)))))"
proof -
  have "sint (vblank_raise priv v - IMX219_EXP_LINES_MARGIN) = uint (cur_vts priv) \<Longrightarrow>
        priv = vblank_state priv v"
    by (simp add: vblank_state_def ucast_of_sint_eq)
  then show ?thesis
    by (auto simp: s_ctrl_vblank_def Let_def reg_write_eq REG_VALUE_16BIT_def vblank_raise_def [symmetric]
        vblank_state_def [symmetric])
qed

lemma catalog_vts_def:
  "m \<in> set supported_modes \<Longrightarrow> uint (vts_def m) = 1763 \<or> uint (vts_def m) = 2500"
  by (auto simp: supported_modes_def)

text \<open>
  C5 (amended). With a catalog entry as the active mode, applying a vertical-blank control
  with a requested value from 0 to 65535 raises a value below the mode's \<^verbatim>\<open>vts_def\<close> to
  \<^verbatim>\<open>vts_def\<close>, the new \<^verbatim>\<open>cur_vts\<close> is the (possibly raised) value minus the
  exposure-lines margin 4, nothing else of the state changes, and the 16-bit frame-length
  register write carrying this \<^verbatim>\<open>cur_vts\<close> is always emitted, also when it equals
  the previously recorded \<^verbatim>\<open>cur_vts\<close>.
\<close>

theorem s_ctrl_vblank_always_writes:
  assumes "cur_mode priv \<in> set supported_modes" and "uint v \<le> 65535"
  shows "\<exists>ret v' priv' c'. imx219_s_ctrl priv c V4L2_CID_VBLANK v = Some (ret, v', priv', c') \<and>
     uint v' = max (uint v) (uint (vts_def (cur_mode priv))) \<and>
     priv' = priv\<lparr>cur_vts := cur_vts priv'\<rparr> \<and>
     uint (cur_vts priv') = uint v' - 4 \<and>
     trace c' = trace c @
       [reg_write_event IMX219_REG_FRM_LENGTH_A REG_VALUE_16BIT (ucast (cur_vts priv'))] \<and>
     ret = (if accepted c 0 (reg_write_event IMX219_REG_FRM_LENGTH_A REG_VALUE_16BIT
                               (ucast (cur_vts priv')))
            then 0 else - EIO)"
proof -
  define v1 where "v1 = vblank_raise priv v"
  have m: "uint v1 = max (uint v) (uint (vts_def (cur_mode priv)))"
    by (simp add: v1_def vblank_raise_def word_less_def max_def)
  have b: "4 \<le> uint v1" "uint v1 \<le> 65535"
    using catalog_vts_def [OF assms(1)] assms(2) m by auto
  have "uint (v1 - 4) = uint v1 - 4"
    using b by (simp add: uint_sub_if' )
  then have "uint (ucast (v1 - 4) :: u16) = uint v1 - 4"
    using b by (simp add: unsigned_ucast_eq take_bit_int_eq_self)
  then have t: "uint (cur_vts (vblank_state priv v)) = uint v1 - 4"
    by (simp add: vblank_state_def v1_def IMX219_EXP_LINES_MARGIN_def)
  have "vblank_state priv v = priv\<lparr>cur_vts := cur_vts (vblank_state priv v)\<rparr>"
    by (simp add: vblank_state_def)
  with m t show ?thesis
    by (simp add: imx219_s_ctrl_def s_ctrl_vblank_eq trace_emit v1_def)
qed

text \<open>The request 0 on the 1920 x 1080 mode: raised to 1763, \<^verbatim>\<open>cur_vts\<close> 1759, one write.\<close>

theorem s_ctrl_vblank_always_writes_witness:
  "cur_mode (sample_priv\<lparr>cur_vts := 1759\<rparr>) \<in> set supported_modes \<and> uint (0 :: u32) \<le> 65535 \<and>
   (\<exists>ret v' priv' c'.
      imx219_s_ctrl (sample_priv\<lparr>cur_vts := 1759\<rparr>) quiet_bus V4L2_CID_VBLANK 0 =
        Some (ret, v', priv', c') \<and>
      uint v' = 1763 \<and> uint (cur_vts priv') = 1759 \<and> length (trace c') = 1)"
proof -
  have h: "cur_mode (sample_priv\<lparr>cur_vts := 1759\<rparr>) \<in> set supported_modes"
    by (simp add: sample_priv_def supported_modes_def)
  have v: "uint (vts_def (cur_mode (sample_priv\<lparr>cur_vts := 1759\<rparr>))) = 1763"
    by (simp add: sample_priv_def supported_modes_def)
  have t: "trace quiet_bus = []" by (simp add: quiet_bus_def)
  from s_ctrl_vblank_always_writes [OF h, of 0 quiet_bus] h v t
  show ?thesis by auto
qed

text \<open>
  The same request when \<^verbatim>\<open>cur_vts\<close> is 1759 already: the state is unchanged and the
  frame-length register is written all the same.
\<close>

theorem s_ctrl_vblank_unchanged_counterexample:
  "imx219_s_ctrl (sample_priv\<lparr>cur_vts := 1759\<rparr>) quiet_bus V4L2_CID_VBLANK 0 =
     Some (0, 1763, sample_priv\<lparr>cur_vts := 1759\<rparr>,
           quiet_bus\<lparr>trace := [I2C_Send [0x01, 0x60, 0x06, 0xDF]]\<rparr>)"
  by (simp add: imx219_s_ctrl_def s_ctrl_vblank_def Let_def reg_write_def i2c_master_send_def
     reg_write_buf_def put_unaligned_be16_def put_unaligned_be32_def emit_def quiet_bus_def
     sample_priv_def supported_modes_def REG_VALUE_16BIT_def IMX219_REG_FRM_LENGTH_A_def
     IMX219_EXP_LINES_MARGIN_def EIO_def bus_ok_def)

subsection \<open>State and register writes\<close>

text \<open>
  C10. For every gain or vertical-blank control application the state returned, with the
  new analogue-gain and digital-gain codes or the new \<^verbatim>\<open>cur_vts\<close>, is fixed by the
  previous state and the value alone, whatever the bus answers; the register writes carry
  the values already stored; and the status is 0 or \<^verbatim>\<open>-EIO\<close>. So after a failed
  write the state holds the new values: nothing is rolled back.
\<close>

theorem s_ctrl_state_before_writes:
  "(cid = V4L2_CID_GAIN \<or> cid = V4L2_CID_ANALOGUE_GAIN \<longrightarrow>
      (\<exists>ret c'. imx219_s_ctrl priv c cid v = Some (ret, v, gain_state priv v, c') \<and>
         trace c' = trace c @
           [reg_write_event IMX219_REG_ANA_GAIN_GLOBAL_A REG_VALUE_08BIT
              (ucast (analogue_gain (gain_state priv v))),
            reg_write_event IMX219_REG_DIG_GAIN_GLOBAL_A REG_VALUE_16BIT
              (ucast (digital_gain (gain_state priv v)))] \<and>
         (ret = 0 \<or> ret = - EIO))) \<and>
   (cid = V4L2_CID_VBLANK \<longrightarrow>
      (\<exists>ret c'. imx219_s_ctrl priv c cid v =
           Some (ret, vblank_raise priv v, vblank_state priv v, c') \<and>
         trace c' = trace c @
           [reg_write_event IMX219_REG_FRM_LENGTH_A REG_VALUE_16BIT
              (ucast (cur_vts (vblank_state priv v)))] \<and>
         (ret = 0 \<or> ret = - EIO)))"
  by (auto simp: imx219_s_ctrl_def with_val_def s_ctrl_gain_eq s_ctrl_vblank_eq trace_emit)

text \<open>On a bus that refuses every transfer both controls fail and keep the new values.\<close>

theorem s_ctrl_state_before_writes_witness:
  "(\<exists>c'. imx219_s_ctrl sample_priv dead_bus V4L2_CID_GAIN 43663 =
       Some (- EIO, 43663, sample_priv\<lparr>analogue_gain := 232, digital_gain := 4095\<rparr>, c')) \<and>
   (\<exists>c'. imx219_s_ctrl sample_priv dead_bus V4L2_CID_VBLANK 2000 =
       Some (- EIO, 2000, sample_priv\<lparr>cur_vts := 1996\<rparr>, c'))"
proof -
  have g: "gain_state sample_priv 43663 = sample_priv\<lparr>analogue_gain := 232, digital_gain := 4095\<rparr>"
    by (simp add: gain_state_def gain_clamp_def gain_split_def analogue_gain_code_def
        digital_gain_code_def Let_def)
  have r: "vblank_raise sample_priv 2000 = 2000"
    by (simp add: vblank_raise_def sample_priv_def supported_modes_def)
  have s: "vblank_state sample_priv 2000 = sample_priv\<lparr>cur_vts := 1996\<rparr>"
    by (simp add: vblank_state_def r IMX219_EXP_LINES_MARGIN_def)
  have e: "(- EIO = (0::int)) = False" by (simp add: EIO_def)
  have f1: "\<And>d. fst (reg_write dead_bus IMX219_REG_ANA_GAIN_GLOBAL_A REG_VALUE_08BIT d) = - EIO"
    by (simp add: reg_write_def i2c_master_send_def dead_bus_def REG_VALUE_08BIT_def)
  from s_ctrl_state_before_writes [of V4L2_CID_GAIN sample_priv dead_bus 43663]
  have "\<exists>ret c'. imx219_s_ctrl sample_priv dead_bus V4L2_CID_GAIN 43663 =
       Some (ret, 43663, sample_priv\<lparr>analogue_gain := 232, digital_gain := 4095\<rparr>, c')"
    by (auto simp: g)
  moreover
  from s_ctrl_state_before_writes [of V4L2_CID_VBLANK sample_priv dead_bus 2000]
  have "\<exists>ret c'. imx219_s_ctrl sample_priv dead_bus V4L2_CID_VBLANK 2000 =
       Some (ret, 2000, sample_priv\<lparr>cur_vts := 1996\<rparr>, c')"
    by (auto simp: r s)
  moreover have "\<And>ret x p c'. imx219_s_ctrl sample_priv dead_bus V4L2_CID_GAIN 43663 = Some (ret, x, p, c') \<Longrightarrow> ret = - EIO"
    by (auto simp: imx219_s_ctrl_def with_val_def s_ctrl_gain_eq accepted_def dead_bus_def reg_write_event_def)
  moreover have "\<And>ret x p c'. imx219_s_ctrl sample_priv dead_bus V4L2_CID_VBLANK 2000 = Some (ret, x, p, c') \<Longrightarrow> ret = - EIO"
    by (auto simp: imx219_s_ctrl_def s_ctrl_vblank_eq accepted_def dead_bus_def reg_write_event_def)
  ultimately show ?thesis by blast
qed

subsection \<open>Republishing the derived control ranges\<close>

lemma catalog_ranges:
  assumes "m \<in> set supported_modes"
  shows "uint (hts_def m - width m) = spec_hblank m"
    and "uint (vts_def m - height m) = spec_vblank m"
    and "uint (IMX219_VTS_MAX - height m) = spec_vblank_max m"
    and "mode_pixel_rate m = spec_pixel_rate m"
  using assms
  by (auto simp: supported_modes_def spec_hblank_def spec_vblank_def spec_vblank_max_def
      spec_pixel_rate_def mode_pixel_rate_def mode_fps_def DIV_ROUND_CLOSEST_def round_div_def
      IMX219_EXP_LINES_MARGIN_def IMX219_VTS_MAX_def)

lemma find_hdr:
  "find (\<lambda>m. hdr_mode m = hdr) supported_modes =
     (if hdr = NO_HDR then Some (supported_modes ! 0) else None)"
  by (simp add: supported_modes_def)

text \<open>
  C6 (amended). A set-format on the active format republishes, from the newly active
  mode, the horizontal blank as the single-value range \<open>hts_def - width\<close>, the vertical
  blank as the range from \<open>vts_def - height\<close> to \<open>0xffff - height\<close> with default
  \<open>vts_def - height\<close>, and the pixel rate as the single-value range
  \<open>vts_def * hts_def * round (fps_denominator / fps_numerator)\<close>. The HDR-config
  selection, which succeeds for the tag \<^verbatim>\<open>NO_HDR\<close> only, republishes the two blanking
  ranges in the same way but sets the pixel-rate control's value, not its range.
\<close>

theorem mode_switch_republishes:
  "(which fmt \<noteq> V4L2_SUBDEV_FORMAT_TRY \<longrightarrow>
      (\<exists>fmt' priv' c'. imx219_set_fmt priv c fmt = (0, fmt', priv', c') \<and>
         cur_mode priv' = imx219_find_best_fit fmt \<and>
         trace c' = trace c @ spec_control_ranges (cur_mode priv'))) \<and>
   (hdr = NO_HDR \<longrightarrow>
      (\<exists>priv' c'. imx219_ioctl priv c (RKMODULE_SET_HDR_CFG hdr) = (0, priv', c') \<and>
         cur_mode priv' = supported_modes ! 0 \<and>
         trace c' = trace c @ take 2 (spec_control_ranges (cur_mode priv')) @
           [S_Ctrl_Int64 PIXEL_RATE (spec_pixel_rate (cur_mode priv'))])) \<and>
   (hdr \<noteq> NO_HDR \<longrightarrow> imx219_ioctl priv c (RKMODULE_SET_HDR_CFG hdr) = (- EINVAL, priv, c))"
proof -
  have m0: "supported_modes ! 0 \<in> set supported_modes" by (simp add: supported_modes_def)
  show ?thesis
    by (simp add: imx219_set_fmt_def imx219_ioctl_def find_hdr Let_def
        v4l2_ctrl_modify_range_def v4l2_ctrl_s_ctrl_int64_def trace_emit spec_control_ranges_def
        catalog_ranges [OF find_best_fit_in_catalog] catalog_ranges [OF m0])
qed

text \<open>Both mode switches from the initial state, with the values of the 1920 x 1080 mode.\<close>

theorem mode_switch_republishes_witness:
  "which near_request \<noteq> V4L2_SUBDEV_FORMAT_TRY \<and>
   (\<exists>fmt' priv' c'. imx219_set_fmt sample_priv quiet_bus near_request = (0, fmt', priv', c') \<and>
      trace c' = [Modify_Range HBLANK 1524 1524 1 1524, Modify_Range VBLANK 683 64455 1 683,
                  Modify_Range PIXEL_RATE 182153160 182153160 1 182153160]) \<and>
   (\<exists>priv' c'. imx219_ioctl sample_priv quiet_bus (RKMODULE_SET_HDR_CFG NO_HDR) = (0, priv', c') \<and>
      trace c' = [Modify_Range HBLANK 1524 1524 1 1524, Modify_Range VBLANK 683 64455 1 683,
                  S_Ctrl_Int64 PIXEL_RATE 182153160])"
proof -
  have w: "which near_request \<noteq> V4L2_SUBDEV_FORMAT_TRY"
    by (simp add: near_request_def V4L2_SUBDEV_FORMAT_TRY_def)
  have r: "spec_control_ranges (supported_modes ! 0) =
     [Modify_Range HBLANK 1524 1524 1 1524, Modify_Range VBLANK 683 64455 1 683,
      Modify_Range PIXEL_RATE 182153160 182153160 1 182153160]"
    "spec_pixel_rate (supported_modes ! 0) = 182153160"
    by (simp_all add: spec_control_ranges_def spec_hblank_def spec_vblank_def spec_vblank_max_def
        spec_pixel_rate_def round_div_def supported_modes_def IMX219_EXP_LINES_MARGIN_def)
  have t: "trace quiet_bus = []" by (simp add: quiet_bus_def)
  from mode_switch_republishes [of near_request sample_priv quiet_bus NO_HDR] w
  show ?thesis by (auto simp: near_request_selects r t)
qed

text \<open>
  The HDR-config selection makes no range republication of the pixel rate: its third call
  is \<^verbatim>\<open>__v4l2_ctrl_s_ctrl_int64\<close>.
\<close>

theorem hdr_cfg_pixel_rate_counterexample:
  "imx219_ioctl sample_priv quiet_bus (RKMODULE_SET_HDR_CFG NO_HDR) =
     (0, sample_priv\<lparr>cur_vts := 1763\<rparr>,
      quiet_bus\<lparr>trace := [Modify_Range HBLANK 1524 1524 1 1524,
                          Modify_Range VBLANK 683 64455 1 683,
                          S_Ctrl_Int64 PIXEL_RATE 182153160]\<rparr>) \<and>
   spec_control_ranges (supported_modes ! 0) =
     [Modify_Range HBLANK 1524 1524 1 1524, Modify_Range VBLANK 683 64455 1 683,
      Modify_Range PIXEL_RATE 182153160 182153160 1 182153160]"
  by (simp add: imx219_ioctl_def Let_def v4l2_ctrl_modify_range_def v4l2_ctrl_s_ctrl_int64_def
      emit_def sample_priv_def quiet_bus_def supported_modes_def mode_pixel_rate_def mode_fps_def
      DIV_ROUND_CLOSEST_def IMX219_EXP_LINES_MARGIN_def IMX219_VTS_MAX_def
      spec_control_ranges_def spec_hblank_def spec_vblank_def spec_vblank_max_def
      spec_pixel_rate_def round_div_def)

subsection \<open>Start of streaming\<close>

lemma emit_emits: "emit c e = emits c [e]" by (simp add: emit_def emits_def)

lemma emits_emits: "emits (emits c a) b = emits c (a @ b)" by (simp add: emits_def)

lemma emits_Nil: "emits c [] = c" by (simp add: emits_def)

lemma trace_emits: "trace (emits c es) = trace c @ es" by (simp add: emits_def)

lemma accepted_emits: "accepted (emits c es) i e = accepted c (length es + i) e"
  by (simp add: accepted_def emits_def add.assoc)

lemma all_accepted_emits: "all_accepted (emits c a) i es = all_accepted c (length a + i) es"
  by (induction es arbitrary: i) (simp_all add: accepted_emits add.assoc)

lemma all_accepted_append:
  "all_accepted c i (a @ b) = (all_accepted c i a \<and> all_accepted c (i + length a) b)"
  by (induction a arbitrary: i) (auto simp: add.assoc)

lemma all_accepted_take:
  "all_accepted c i es \<Longrightarrow> all_accepted c i (take j es)"
  by (induction es arbitrary: i j) (auto simp: take_Cons' )

lemma table_events_Cons:
  "table_events ((a, v) # tbl) =
     (if a = IMX219_TABLE_END then []
      else reg_write_event a REG_VALUE_08BIT (ucast v) # table_events tbl)"
  by (simp add: table_events_def)

lemma table_events_Nil: "table_events [] = []" by (simp add: table_events_def)

lemma EIO_neg: "0 < EIO" "EIO \<noteq> 0" by (simp_all add: EIO_def)

lemma reg_write_table_ok:
  "all_accepted c 0 (table_events tbl) \<Longrightarrow>
     reg_write_table c tbl = (0, emits c (table_events tbl))"
proof (induction tbl arbitrary: c)
  case Nil
  then show ?case by (simp add: table_events_Nil emits_Nil)
next
  case (Cons r tbl)
  obtain a v where r: "r = (a, v)" by (cases r)
  show ?case
  proof (cases "a = IMX219_TABLE_END")
    case True
    then show ?thesis by (simp add: r table_events_Cons emits_Nil)
  next
    case False
    with Cons.prems have acc: "accepted c 0 (reg_write_event a REG_VALUE_08BIT (ucast v))"
      and rest: "all_accepted (emits c [reg_write_event a REG_VALUE_08BIT (ucast v)]) 0 (table_events tbl)"
      by (simp_all add: r table_events_Cons all_accepted_emits)
    from Cons.IH [OF rest] acc False show ?thesis
      by (simp add: r table_events_Cons reg_write_eq REG_VALUE_08BIT_def emit_emits emits_emits)
  qed
qed

lemma reg_write_table_fail:
  "j < length (table_events tbl) \<Longrightarrow> all_accepted c 0 (take j (table_events tbl)) \<Longrightarrow>
   \<not> accepted c j (table_events tbl ! j) \<Longrightarrow>
     reg_write_table c tbl = (- EIO, emits c (take (Suc j) (table_events tbl)))"
proof (induction tbl arbitrary: c j)
  case Nil
  then show ?case by (simp add: table_events_Nil)
next
  case (Cons r tbl)
  obtain a v where r: "r = (a, v)" by (cases r)
  show ?case
  proof (cases "a = IMX219_TABLE_END")
    case True
    with Cons.prems show ?thesis by (simp add: r table_events_Cons)
  next
    case False
    note ne = False
    show ?thesis
    proof (cases j)
      case 0
      with Cons.prems ne show ?thesis
        by (simp add: r table_events_Cons reg_write_eq REG_VALUE_08BIT_def emit_emits EIO_neg)
    next
      case (Suc k)
      with Cons.prems ne have k: "k < length (table_events tbl)"
        and acc: "accepted c 0 (reg_write_event a REG_VALUE_08BIT (ucast v))"
        and rest: "all_accepted (emits c [reg_write_event a REG_VALUE_08BIT (ucast v)]) 0
                     (take k (table_events tbl))"
        and bad: "\<not> accepted (emits c [reg_write_event a REG_VALUE_08BIT (ucast v)]) k
                     (table_events tbl ! k)"
        by (simp_all add: r table_events_Cons all_accepted_emits accepted_emits)
      from Cons.IH [OF k rest bad] acc ne Suc show ?thesis
        by (simp add: r table_events_Cons reg_write_eq REG_VALUE_08BIT_def emit_emits emits_emits)
    qed
  qed
qed

lemma or_status3:
  "(((if a then 0 else - EIO) OR (if b then 0 else - EIO)) OR (if c then 0 else - EIO)) =
     (if a \<and> b \<and> c then 0 else - EIO)"
  by (simp add: EIO_def)

lemma s_stream_test_pattern_eq:
  "s_stream_test_pattern priv c =
     ((if all_accepted c 0 (test_pattern_events priv) then 0 else - EIO),
      emits c (test_pattern_events priv))"
  by (simp add: s_stream_test_pattern_def test_pattern_events_def reg_write_eq REG_VALUE_16BIT_def
      emit_emits emits_emits accepted_emits or_status3)

text \<open>The outcome of \<^verbatim>\<open>imx219_s_stream\<close> by the first write that the bus refuses.\<close>

lemma s_stream_steps:
  assumes "enable \<noteq> 0"
  shows "(j < length (replay_events priv) \<and> all_accepted c 0 (take j (replay_events priv)) \<and>
          \<not> accepted c j (replay_events priv ! j) \<longrightarrow>
            imx219_s_stream priv c enable =
              (- EIO, priv, emits c (take (Suc j) (replay_events priv)))) \<and>
         (all_accepted c 0 (replay_events priv) \<and>
          \<not> accepted c (length (replay_events priv)) (orientation_event priv) \<longrightarrow>
            imx219_s_stream priv c enable =
              (- EIO, priv, emits c (replay_events priv @ [orientation_event priv]))) \<and>
         (all_accepted c 0 (replay_events priv @ [orientation_event priv]) \<and>
          \<not> all_accepted c (length (replay_events priv) + 1) (test_pattern_events priv) \<longrightarrow>
            imx219_s_stream priv c enable =
              (- EIO, stream_on_vts priv,
               emits c (replay_events priv @ [orientation_event priv] @ test_pattern_events priv))) \<and>
         (all_accepted c 0
            (replay_events priv @ [orientation_event priv] @ test_pattern_events priv) \<longrightarrow>
            imx219_s_stream priv c enable =
              ((if all_accepted c
                     (length (replay_events priv) + 1 + length (test_pattern_events priv))
                     stream_enable_events
                then 0 else - EIO),
               stream_on_vts priv,
               emits c (replay_events priv @ [orientation_event priv] @ test_pattern_events priv @
                        stream_enable_events)))"
proof -
  let ?R = "replay_events priv" and ?T = "test_pattern_events priv"
  let ?S = "stream_enable_events" and ?O = "orientation_event priv"
  have S: "?S = [reg_write_event 0x0100 REG_VALUE_08BIT 1]"
    by (simp add: stream_enable_events_def start_def table_events_def IMX219_TABLE_END_def)
  have st: "\<And>c'. reg_write_table c' start =
      ((if all_accepted c' 0 ?S then 0 else - EIO), emits c' ?S)"
    by (simp add: S start_def IMX219_TABLE_END_def reg_write_eq REG_VALUE_08BIT_def emit_emits EIO_neg)
  have c1: "j < length ?R \<and> all_accepted c 0 (take j ?R) \<and> \<not> accepted c j (?R ! j) \<longrightarrow>
            imx219_s_stream priv c enable = (- EIO, priv, emits c (take (Suc j) ?R))"
    using assms(1) by (auto simp: imx219_s_stream_def replay_events_def reg_write_table_fail EIO_neg)
  have c2: "all_accepted c 0 ?R \<and> \<not> accepted c (length ?R) ?O \<longrightarrow>
            imx219_s_stream priv c enable = (- EIO, priv, emits c (?R @ [?O]))"
    using assms(1)
    by (auto simp: imx219_s_stream_def replay_events_def reg_write_table_ok reg_write_eq REG_VALUE_08BIT_def
        orientation_event_def accepted_emits emit_emits emits_emits EIO_neg)
  have c3: "all_accepted c 0 (?R @ [?O]) \<and> \<not> all_accepted c (length ?R + 1) ?T \<longrightarrow>
            imx219_s_stream priv c enable = (- EIO, stream_on_vts priv, emits c (?R @ [?O] @ ?T))"
    using assms(1)
    by (auto simp: imx219_s_stream_def replay_events_def reg_write_table_ok reg_write_eq
        REG_VALUE_08BIT_def orientation_event_def accepted_emits emit_emits emits_emits EIO_neg
        all_accepted_append s_stream_test_pattern_eq all_accepted_emits stream_on_vts_def Let_def)
  have c4: "all_accepted c 0 (?R @ [?O] @ ?T) \<longrightarrow>
            imx219_s_stream priv c enable =
              ((if all_accepted c (length ?R + 1 + length ?T) ?S then 0 else - EIO),
               stream_on_vts priv, emits c (?R @ [?O] @ ?T @ ?S))"
    using assms(1)
    by (auto simp: imx219_s_stream_def replay_events_def reg_write_table_ok reg_write_eq
        REG_VALUE_08BIT_def orientation_event_def accepted_emits emit_emits emits_emits EIO_neg
        all_accepted_append s_stream_test_pattern_eq all_accepted_emits stream_on_vts_def Let_def
        st add.commute add.left_commute)
  from c1 c2 c3 c4 show ?thesis by blast
qed

lemma all_accepted_table:
  "(\<And>n a l d. i \<le> n \<Longrightarrow> n < i + length (table_events tbl) \<Longrightarrow>
       accepted c n (reg_write_event a l d)) \<Longrightarrow>
   all_accepted c i (table_events tbl)"
proof (induction tbl arbitrary: i)
  case Nil
  then show ?case by (simp add: table_events_Nil)
next
  case (Cons r tbl)
  obtain a v where r: "r = (a, v)" by (cases r)
  show ?case
  proof (cases "a = IMX219_TABLE_END")
    case True
    then show ?thesis by (simp add: r table_events_Cons)
  next
    case False
    have "all_accepted c (i + 1) (table_events tbl)"
      by (rule Cons.IH) (use False in \<open>auto intro!: Cons.prems simp: r table_events_Cons\<close>)
    moreover have "accepted c i (reg_write_event a REG_VALUE_08BIT (ucast v))"
      by (rule Cons.prems) (use False in \<open>auto simp: r table_events_Cons\<close>)
    ultimately show ?thesis using False by (simp add: r table_events_Cons)
  qed
qed

lemma accepted_quiet_bus: "accepted quiet_bus n (reg_write_event a l d)"
  by (simp add: accepted_def quiet_bus_def bus_ok_def reg_write_event_def)

lemma accepted_bus_failing_at: "accepted (bus_failing_at k) n (reg_write_event a l d) = (n \<noteq> k)"
  by (simp add: accepted_def bus_failing_at_def bus_ok_def reg_write_event_def)

text \<open>The bus calls of the driver are the byte sequences that the spec names.\<close>

lemma reg_write_event_write8: "reg_write_event a REG_VALUE_08BIT (ucast v) = write8 a v"
  by (simp add: reg_write_event_8 write8_def)

lemma reg_write_event_write16: "reg_write_event a REG_VALUE_16BIT d = write16 a (ucast d)"
  apply (simp add: reg_write_event_def reg_write_buf_def REG_VALUE_16BIT_def write16_def
      put_unaligned_be16_def put_unaligned_be32_def)
  apply (rule conjI; rule bit_word_eqI; auto simp: bit_simps)
  done

lemma ucast_ucast_u16: "(ucast (ucast (x :: u16) :: u32) :: u16) = x"
  by (simp add: ucast_up_ucast_id is_up)

lemma replay_events_spec: "replay_events priv = spec_replay priv"
  by (simp add: replay_events_def table_events_def spec_replay_def reg_write_event_write8
      IMX219_TABLE_END_def)

lemma orientation_event_spec: "orientation_event priv = spec_orientation priv"
  by (simp add: orientation_event_def spec_orientation_def reg_write_event_write8
      orientation_reg_def spec_flip_bits_def Let_def IMX219_REG_IMG_ORIENTATION_def)

lemma test_pattern_events_spec: "test_pattern_events priv = spec_test_pattern priv"
  by (simp add: test_pattern_events_def spec_test_pattern_def reg_write_event_write16
      ucast_ucast_u16 IMX219_REG_TP_def IMX219_REG_TP_WINDOW_WIDTH_def
      IMX219_REG_TP_WINDOW_HEIGHT_def)

lemma stream_enable_events_spec: "stream_enable_events = spec_stream_enable"
proof -
  have "reg_write_event 0x0100 REG_VALUE_08BIT (ucast (1 :: u8)) = write8 0x0100 1"
    by (rule reg_write_event_write8)
  then show ?thesis
    by (simp add: stream_enable_events_def start_def table_events_def spec_stream_enable_def
        IMX219_TABLE_END_def)
qed

text \<open>
  C7. On the start-streaming transition the register writes go out in this order: the
  replay of the active mode's register table, the orientation register (bit 0 for the
  horizontal and bit 1 for the vertical flip), the test-pattern registers (pattern, window
  width and height of the active mode's output size when a pattern is selected, else the
  single disabling write), the stream-enable write. A write that the bus refuses ends the
  transition with \<^verbatim>\<open>-EIO\<close>: in the replay at that write, at the orientation write, or
  after the test-pattern writes; no later step is attempted, and the stream-enable write
  is sent only when every write before it was accepted.
\<close>

theorem s_stream_order:
  assumes "enable \<noteq> 0"
  shows "(j < length (spec_replay priv) \<and> all_accepted c 0 (take j (spec_replay priv)) \<and>
          \<not> accepted c j (spec_replay priv ! j) \<longrightarrow>
            imx219_s_stream priv c enable =
              (- EIO, priv, emits c (take (Suc j) (spec_replay priv)))) \<and>
         (all_accepted c 0 (spec_replay priv) \<and>
          \<not> accepted c (length (spec_replay priv)) (spec_orientation priv) \<longrightarrow>
            imx219_s_stream priv c enable =
              (- EIO, priv, emits c (spec_replay priv @ [spec_orientation priv]))) \<and>
         (all_accepted c 0 (spec_replay priv @ [spec_orientation priv]) \<and>
          \<not> all_accepted c (length (spec_replay priv) + 1) (spec_test_pattern priv) \<longrightarrow>
            imx219_s_stream priv c enable =
              (- EIO, stream_on_vts priv,
               emits c (spec_replay priv @ [spec_orientation priv] @ spec_test_pattern priv))) \<and>
         (all_accepted c 0
            (spec_replay priv @ [spec_orientation priv] @ spec_test_pattern priv) \<longrightarrow>
            imx219_s_stream priv c enable =
              ((if all_accepted c
                     (length (spec_replay priv) + 1 + length (spec_test_pattern priv))
                     spec_stream_enable
                then 0 else - EIO),
               stream_on_vts priv,
               emits c (spec_replay priv @ [spec_orientation priv] @ spec_test_pattern priv @
                        spec_stream_enable)))"
  using s_stream_steps [OF assms, of j priv c]
  unfolding replay_events_spec orientation_event_spec test_pattern_events_spec
    stream_enable_events_spec .

lemma accepted_quiet_bus_write: "accepted quiet_bus n (write8 a v)" "accepted quiet_bus n (write16 a w)"
  by (simp_all add: accepted_def quiet_bus_def bus_ok_def write8_def write16_def)

lemma accepted_bus_failing_at_write:
  "accepted (bus_failing_at k) n (write8 a v) = (n \<noteq> k)"
  "accepted (bus_failing_at k) n (write16 a w) = (n \<noteq> k)"
  by (simp_all add: accepted_def bus_failing_at_def bus_ok_def write8_def write16_def)

lemma length_replay_flipped: "length (spec_replay flipped_priv) = 48"
  by (simp add: spec_replay_def flipped_priv_def sample_priv_def supported_modes_def
      imx219_init_tab_1920_1080_30fps_def)

lemma spec_events_flipped:
  "spec_orientation flipped_priv = I2C_Send [0x01, 0x72, 0x03]"
  "spec_test_pattern flipped_priv =
     [I2C_Send [0x06, 0x00, 0x00, 0x02], I2C_Send [0x06, 0x24, 0x07, 0x80],
      I2C_Send [0x06, 0x26, 0x04, 0x38]]"
  "spec_stream_enable = [I2C_Send [0x01, 0x00, 0x01]]"
  "take 1 (spec_replay flipped_priv) = [I2C_Send [0x30, 0xEB, 0x05]]"
  by (simp_all add: spec_orientation_def spec_flip_bits_def spec_test_pattern_def
      spec_stream_enable_def spec_replay_def write8_def write16_def flipped_priv_def
      sample_priv_def supported_modes_def imx219_init_tab_1920_1080_30fps_def)

text \<open>
  From a state with both flips set and a test pattern selected, on the 1920 x 1080 mode: a
  failure at the first replay write, at the orientation write (call 48), at the second
  test-pattern write (call 50), and a bus that accepts everything. The orientation value
  is 3 and the last write is 0x0100 := 1.
\<close>

theorem s_stream_order_witness:
  "imx219_s_stream flipped_priv (bus_failing_at 0) 1 =
     (- EIO, flipped_priv, emits (bus_failing_at 0) [I2C_Send [0x30, 0xEB, 0x05]]) \<and>
   imx219_s_stream flipped_priv (bus_failing_at 48) 1 =
     (- EIO, flipped_priv,
      emits (bus_failing_at 48) (spec_replay flipped_priv @ [I2C_Send [0x01, 0x72, 0x03]])) \<and>
   imx219_s_stream flipped_priv (bus_failing_at 50) 1 =
     (- EIO, stream_on_vts flipped_priv,
      emits (bus_failing_at 50)
        (spec_replay flipped_priv @
         [I2C_Send [0x01, 0x72, 0x03], I2C_Send [0x06, 0x00, 0x00, 0x02],
          I2C_Send [0x06, 0x24, 0x07, 0x80], I2C_Send [0x06, 0x26, 0x04, 0x38]])) \<and>
   imx219_s_stream flipped_priv quiet_bus 1 =
     (0, stream_on_vts flipped_priv,
      emits quiet_bus
        (spec_replay flipped_priv @
         [I2C_Send [0x01, 0x72, 0x03], I2C_Send [0x06, 0x00, 0x00, 0x02],
          I2C_Send [0x06, 0x24, 0x07, 0x80], I2C_Send [0x06, 0x26, 0x04, 0x38],
          I2C_Send [0x01, 0x00, 0x01]]))"
proof -
  have en: "(1 :: u32) \<noteq> 0" by simp
  have R: "\<And>k. 48 \<le> k \<Longrightarrow> all_accepted (bus_failing_at k) 0 (spec_replay flipped_priv)"
    unfolding replay_events_spec [symmetric] replay_events_def
    by (rule all_accepted_table)
       (simp add: accepted_bus_failing_at replay_events_def [symmetric] replay_events_spec
          length_replay_flipped)
  have Rq: "all_accepted quiet_bus 0 (spec_replay flipped_priv)"
    unfolding replay_events_spec [symmetric] replay_events_def
    by (rule all_accepted_table) (simp add: accepted_quiet_bus)
  have a1: "0 < length (spec_replay flipped_priv) \<and>
      all_accepted (bus_failing_at 0) 0 (take 0 (spec_replay flipped_priv)) \<and>
      \<not> accepted (bus_failing_at 0) 0 (spec_replay flipped_priv ! 0)"
    by (simp add: length_replay_flipped)
       (simp add: spec_replay_def flipped_priv_def sample_priv_def supported_modes_def
          imx219_init_tab_1920_1080_30fps_def accepted_bus_failing_at_write)
  have a2: "all_accepted (bus_failing_at 48) 0 (spec_replay flipped_priv) \<and>
      \<not> accepted (bus_failing_at 48) (length (spec_replay flipped_priv))
           (spec_orientation flipped_priv)"
    by (simp add: R length_replay_flipped spec_orientation_def accepted_bus_failing_at_write)
  have T: "spec_test_pattern flipped_priv =
      [write16 0x0600 2, write16 0x0624 (ucast (width (cur_mode flipped_priv))),
       write16 0x0626 (ucast (height (cur_mode flipped_priv)))]"
    by (simp add: spec_test_pattern_def flipped_priv_def)
  have a3: "all_accepted (bus_failing_at 50) 0
        (spec_replay flipped_priv @ [spec_orientation flipped_priv]) \<and>
      \<not> all_accepted (bus_failing_at 50) (length (spec_replay flipped_priv) + 1)
           (spec_test_pattern flipped_priv)"
    by (simp add: R length_replay_flipped spec_orientation_def accepted_bus_failing_at_write
        all_accepted_append T)
  have a4: "all_accepted quiet_bus 0
        (spec_replay flipped_priv @ [spec_orientation flipped_priv] @
         spec_test_pattern flipped_priv)"
    by (simp add: Rq spec_orientation_def accepted_quiet_bus_write all_accepted_append T)
  have a5: "all_accepted quiet_bus
        (length (spec_replay flipped_priv) + 1 + length (spec_test_pattern flipped_priv))
        spec_stream_enable"
    by (simp add: spec_stream_enable_def accepted_quiet_bus_write)
  from s_stream_order [OF en, of 0 flipped_priv "bus_failing_at 0"] a1
  have w1: "imx219_s_stream flipped_priv (bus_failing_at 0) 1 =
     (- EIO, flipped_priv, emits (bus_failing_at 0) (take 1 (spec_replay flipped_priv)))"
    by simp
  from s_stream_order [OF en, of 0 flipped_priv "bus_failing_at 48"] a2
  have w2: "imx219_s_stream flipped_priv (bus_failing_at 48) 1 =
     (- EIO, flipped_priv,
      emits (bus_failing_at 48) (spec_replay flipped_priv @ [spec_orientation flipped_priv]))"
    by blast
  from s_stream_order [OF en, of 0 flipped_priv "bus_failing_at 50"] a3
  have w3: "imx219_s_stream flipped_priv (bus_failing_at 50) 1 =
     (- EIO, stream_on_vts flipped_priv,
      emits (bus_failing_at 50)
        (spec_replay flipped_priv @ [spec_orientation flipped_priv] @
         spec_test_pattern flipped_priv))"
    by blast
  from s_stream_order [OF en, of 0 flipped_priv quiet_bus] a4 a5
  have w4: "imx219_s_stream flipped_priv quiet_bus 1 =
     (0, stream_on_vts flipped_priv,
      emits quiet_bus
        (spec_replay flipped_priv @ [spec_orientation flipped_priv] @
         spec_test_pattern flipped_priv @ spec_stream_enable))"
    by simp
  from w1 w2 w3 w4 show ?thesis
    by (simp add: spec_events_flipped spec_events_flipped(4) [unfolded One_nat_def])
qed

subsection \<open>The identity check\<close>

lemma reg_read_eq:
  "len \<le> 4 \<Longrightarrow> reg_read c a len =
     ((if accepted c 0 (reg_read_event a len) then Inr (read_value c 0 len) else Inl (- EIO)),
      emits c [reg_read_event a len])"
  by (simp add: reg_read_def Let_def accepted_def reg_read_event_def read_value_def
      emit_emits [symmetric])

lemma read_value_emits: "read_value (emits c es) i len = read_value c (length es + i) len"
  by (simp add: read_value_def emits_def add.assoc)

lemma s_power_eq:
  "imx219_s_power c on = (0, emits c [if on \<noteq> 0 then Clk_Enable else Clk_Disable])"
  by (simp add: imx219_s_power_def emit_emits)

lemma probe_done_eq: "probe_done ret c = (ret, emits c [Clk_Disable])"
  by (simp add: probe_done_def s_power_eq)

lemmas probe_simps = imx219_video_probe_def s_power_eq probe_done_eq reg_read_eq
  REG_VALUE_08BIT_def REG_VALUE_16BIT_def accepted_emits read_value_emits emits_emits probe_reads_def
  EIO_neg

text \<open>
  C9. The identity check enables the clock, reads the 16-bit model-identity register,
  the three lot-identity bytes and the 16-bit chip-identity register, each once, and
  disables the clock on every path. The first read that the bus refuses ends the reads
  and the result is \<^verbatim>\<open>-EIO\<close>; when all five reads succeed the result is \<^verbatim>\<open>-ENODEV\<close>
  for every model-identity value other than 0x0219, whatever the lot and chip values,
  and 0 for 0x0219.
\<close>

theorem video_probe_outcome:
  "(j < length probe_reads \<and> all_accepted c 1 (take j probe_reads) \<and>
    \<not> accepted c (1 + j) (probe_reads ! j) \<longrightarrow>
      imx219_video_probe c =
        (- EIO, emits c ([Clk_Enable] @ take (Suc j) probe_reads @ [Clk_Disable]))) \<and>
   (all_accepted c 1 probe_reads \<longrightarrow>
      imx219_video_probe c =
        ((if read_value c 1 REG_VALUE_16BIT \<noteq> IMX219_MODEL_ID then - ENODEV else 0),
         emits c ([Clk_Enable] @ probe_reads @ [Clk_Disable])))"
proof -
  have c1: "j < length probe_reads \<and> all_accepted c 1 (take j probe_reads) \<and>
    \<not> accepted c (1 + j) (probe_reads ! j) \<longrightarrow>
      imx219_video_probe c =
        (- EIO, emits c ([Clk_Enable] @ take (Suc j) probe_reads @ [Clk_Disable]))"
  proof (intro impI, elim conjE)
    assume j: "j < length probe_reads"
      and ok: "all_accepted c 1 (take j probe_reads)"
      and bad: "\<not> accepted c (1 + j) (probe_reads ! j)"
    from j consider "j = 0" | "j = 1" | "j = 2" | "j = 3" | "j = 4"
      by (auto simp: probe_reads_def less_Suc_eq numeral_eq_Suc)
    then show "imx219_video_probe c =
        (- EIO, emits c ([Clk_Enable] @ take (Suc j) probe_reads @ [Clk_Disable]))"
    proof cases
      case 1 with ok bad show ?thesis by (simp add: probe_simps)
    next
      case 2 with ok bad show ?thesis by (simp add: probe_simps)
    next
      case 3 with ok bad show ?thesis by (simp add: probe_simps numeral_eq_Suc)
    next
      case 4 with ok bad show ?thesis by (simp add: probe_simps numeral_eq_Suc)
    next
      case 5 with ok bad show ?thesis by (simp add: probe_simps numeral_eq_Suc)
    qed
  qed
  have c2: "all_accepted c 1 probe_reads \<longrightarrow>
      imx219_video_probe c =
        ((if read_value c 1 REG_VALUE_16BIT \<noteq> IMX219_MODEL_ID then - ENODEV else 0),
         emits c ([Clk_Enable] @ probe_reads @ [Clk_Disable]))"
    by (simp add: probe_simps)
  from c1 c2 show ?thesis by blast
qed

lemma read_value_probe_bus:
  "read_value (probe_bus b0 b1) i REG_VALUE_16BIT = push_bit 8 (ucast b0) OR ucast b1"
  by (simp add: read_value_def probe_bus_def REG_VALUE_16BIT_def get_unaligned_be32_def
      upt_rec [of 0] upt_rec [of 1] numeral_2_eq_2)

lemma all_accepted_probe_bus: "all_accepted (probe_bus b0 b1) i probe_reads"
  by (simp add: probe_reads_def accepted_def probe_bus_def bus_ok_def reg_read_event_def)

text \<open>A bus that refuses every transfer, a sensor with identity 0x0219 and one with 0x0220.\<close>

theorem video_probe_outcome_witness:
  "imx219_video_probe dead_bus =
     (- EIO, emits dead_bus
        [Clk_Enable, reg_read_event IMX219_REG_MODEL_ID REG_VALUE_16BIT, Clk_Disable]) \<and>
   imx219_video_probe (probe_bus 0x02 0x19) =
     (0, emits (probe_bus 0x02 0x19) ([Clk_Enable] @ probe_reads @ [Clk_Disable])) \<and>
   imx219_video_probe (probe_bus 0x02 0x20) =
     (- ENODEV, emits (probe_bus 0x02 0x20) ([Clk_Enable] @ probe_reads @ [Clk_Disable]))"
proof -
  have a1: "0 < length probe_reads \<and> all_accepted dead_bus 1 (take 0 probe_reads) \<and>
      \<not> accepted dead_bus (1 + 0) (probe_reads ! 0)"
    by (simp add: probe_reads_def accepted_def dead_bus_def reg_read_event_def)
  have v1: "read_value (probe_bus 0x02 0x19) 1 REG_VALUE_16BIT = IMX219_MODEL_ID"
    by (simp add: read_value_probe_bus IMX219_MODEL_ID_def)
  have v2: "read_value (probe_bus 0x02 0x20) 1 REG_VALUE_16BIT \<noteq> IMX219_MODEL_ID"
    by (simp add: read_value_probe_bus IMX219_MODEL_ID_def)
  from video_probe_outcome [of 0 dead_bus] a1
  have w1: "imx219_video_probe dead_bus =
     (- EIO, emits dead_bus
        [Clk_Enable, reg_read_event IMX219_REG_MODEL_ID REG_VALUE_16BIT, Clk_Disable])"
    by (simp add: probe_reads_def)
  from video_probe_outcome [of 0 "probe_bus 0x02 0x19"] all_accepted_probe_bus v1
  have w2: "imx219_video_probe (probe_bus 0x02 0x19) =
     (0, emits (probe_bus 0x02 0x19) ([Clk_Enable] @ probe_reads @ [Clk_Disable]))"
    by simp
  from video_probe_outcome [of 0 "probe_bus 0x02 0x20"] all_accepted_probe_bus v2
  have w3: "imx219_video_probe (probe_bus 0x02 0x20) =
     (- ENODEV, emits (probe_bus 0x02 0x20) ([Clk_Enable] @ probe_reads @ [Clk_Disable]))"
    by simp
  from w1 w2 w3 show ?thesis by blast
qed

subsection \<open>Controls and the mode-select register\<close>

lemma s_ctrl_apply_eq:
  "s_ctrl_apply priv c =
     (if \<not> accepted c 0 (reg_read_event IMX219_REG_MODE_SELECT REG_VALUE_08BIT) then
        (- EIO, priv, emits c [reg_read_event IMX219_REG_MODE_SELECT REG_VALUE_08BIT])
      else if read_value c 0 REG_VALUE_08BIT AND 0x1f = 0x01 then
        (0, snd (imx219_s_stream priv
                   (emits c [reg_read_event IMX219_REG_MODE_SELECT REG_VALUE_08BIT]) 1))
      else (0, priv, emits c [reg_read_event IMX219_REG_MODE_SELECT REG_VALUE_08BIT]))"
  by (simp add: s_ctrl_apply_def reg_read_eq REG_VALUE_08BIT_def split: prod.split)

lemma ucast_and_ffff: "(ucast ((v :: u32) AND 0xffff) :: u16) = ucast v"
proof -
  have m: "(0xffff :: u32) = mask 16" by (simp add: mask_eq_exp_minus_1)
  show ?thesis unfolding m by (rule bit_word_eqI) (auto simp: bit_simps)
qed

lemma own_writes_no_read: "mode_select_read \<notin> set (own_writes priv cid v)"
  by (cases cid) (simp_all add: own_writes_def reg_write_event_def mode_select_read_def
      reg_read_event_def)

lemma own_writes_are_sends: "e \<in> set (own_writes priv cid v) \<Longrightarrow> \<exists>b. e = I2C_Send b"
  by (cases cid) (auto simp: own_writes_def reg_write_event_def)

text \<open>
  C8 (amended). Only the horizontal-flip and vertical-flip control applications, which
  write no register of their own, read the mode-select register: they store the flag and
  read it; when the read fails they return \<^verbatim>\<open>-EIO\<close>, when the value masked to its low
  5 bits equals 1 they re-apply the start sequence and return 0, and otherwise they return
  0. Every other control application (gain, exposure, test pattern with a menu index from
  0 to 4, the four test-pattern colours, vertical blank, an unknown identifier) returns
  right after its own register writes: its bus calls are those writes and nothing else,
  so it neither reads the mode-select register nor re-applies the start sequence.
\<close>

theorem s_ctrl_mode_select_read:
  "(cid \<noteq> V4L2_CID_HFLIP \<and> cid \<noteq> V4L2_CID_VFLIP \<and>
    (cid = V4L2_CID_TEST_PATTERN \<longrightarrow> 0 \<le> sint v \<and> sint v < 5) \<longrightarrow>
      (\<exists>ret v' priv'. imx219_s_ctrl priv c cid v =
         Some (ret, v', priv', emits c (own_writes priv cid v))) \<and>
      mode_select_read \<notin> set (own_writes priv cid v) \<and>
      (\<forall>e \<in> set (own_writes priv cid v). \<exists>b. e = I2C_Send b)) \<and>
   (cid = V4L2_CID_HFLIP \<or> cid = V4L2_CID_VFLIP \<longrightarrow>
      imx219_s_ctrl priv c cid v =
        Some (if \<not> accepted c 0 mode_select_read then
                (- EIO, v, flip_state priv cid v, emits c [mode_select_read])
              else if read_value c 0 REG_VALUE_08BIT AND 0x1f = 0x01 then
                (0, v, snd (imx219_s_stream (flip_state priv cid v)
                              (emits c [mode_select_read]) 1))
              else (0, v, flip_state priv cid v, emits c [mode_select_read])))"
proof -
  have a: "cid \<noteq> V4L2_CID_HFLIP \<and> cid \<noteq> V4L2_CID_VFLIP \<and>
    (cid = V4L2_CID_TEST_PATTERN \<longrightarrow> 0 \<le> sint v \<and> sint v < 5) \<longrightarrow>
      (\<exists>ret v' priv'. imx219_s_ctrl priv c cid v =
         Some (ret, v', priv', emits c (own_writes priv cid v)))"
    by (cases cid)
       (auto simp: imx219_s_ctrl_def with_val_def own_writes_def s_ctrl_gain_eq s_ctrl_vblank_eq
          s_ctrl_exposure_def s_ctrl_test_pattern_def s_ctrl_test_colour_def test_pattern_val_def
          Let_def reg_write_eq REG_VALUE_16BIT_def emit_emits emits_emits emits_Nil
          ucast_and_ffff split: prod.split)
  have b: "cid = V4L2_CID_HFLIP \<or> cid = V4L2_CID_VFLIP \<longrightarrow>
      imx219_s_ctrl priv c cid v =
        Some (if \<not> accepted c 0 mode_select_read then
                (- EIO, v, flip_state priv cid v, emits c [mode_select_read])
              else if read_value c 0 REG_VALUE_08BIT AND 0x1f = 0x01 then
                (0, v, snd (imx219_s_stream (flip_state priv cid v)
                              (emits c [mode_select_read]) 1))
              else (0, v, flip_state priv cid v, emits c [mode_select_read]))"
    by (auto simp: imx219_s_ctrl_def with_val_def s_ctrl_apply_eq flip_state_def
        mode_select_read_def split: prod.split)
  from a b own_writes_no_read [of priv cid v] own_writes_are_sends [of _ priv cid v]
  show ?thesis by blast
qed

lemma replicate_3: "replicate 3 x = [x, x, x]"
  by (simp add: numeral_3_eq_3)

lemma accepted_streaming_bus_read: "accepted streaming_bus i mode_select_read"
  by (simp add: accepted_def streaming_bus_def bus_ok_def mode_select_read_def reg_read_event_def)

lemma read_value_streaming_bus: "read_value streaming_bus i REG_VALUE_08BIT = 1"
  by (simp add: read_value_def streaming_bus_def REG_VALUE_08BIT_def get_unaligned_be32_def
      replicate_3)

text \<open>
  On a sensor that reports streaming: an exposure control, a test-pattern colour, an
  unknown identifier, and a horizontal flip.
\<close>

theorem s_ctrl_mode_select_read_witness:
  "(\<exists>ret v' priv'. imx219_s_ctrl sample_priv streaming_bus V4L2_CID_EXPOSURE 100 =
      Some (ret, v', priv',
            emits streaming_bus
              [reg_write_event IMX219_REG_EXPOSURE REG_VALUE_16BIT 100])) \<and>
   (\<exists>ret v' priv'. imx219_s_ctrl sample_priv streaming_bus V4L2_CID_TEST_PATTERN_RED 7 =
      Some (ret, v', priv',
            emits streaming_bus [reg_write_event IMX219_REG_TD_R REG_VALUE_16BIT 7])) \<and>
   (\<exists>ret v' priv'. imx219_s_ctrl sample_priv streaming_bus V4L2_CID_OTHER 0 =
      Some (ret, v', priv', emits streaming_bus [])) \<and>
   imx219_s_ctrl sample_priv streaming_bus V4L2_CID_HFLIP 1 =
     Some (0, 1, snd (imx219_s_stream (sample_priv\<lparr>hflip := 1\<rparr>)
                        (emits streaming_bus [mode_select_read]) 1))"
  using s_ctrl_mode_select_read [of V4L2_CID_EXPOSURE 100 sample_priv streaming_bus]
    s_ctrl_mode_select_read [of V4L2_CID_TEST_PATTERN_RED 7 sample_priv streaming_bus]
    s_ctrl_mode_select_read [of V4L2_CID_OTHER 0 sample_priv streaming_bus]
    s_ctrl_mode_select_read [of V4L2_CID_HFLIP 1 sample_priv streaming_bus]
  by (simp add: accepted_streaming_bus_read read_value_streaming_bus flip_state_def
      own_writes_def)

text \<open>
  On a sensor whose mode-select register reads 1, the exposure control makes one bus call,
  the write of the exposure register.
\<close>

theorem s_ctrl_exposure_no_read_counterexample:
  "imx219_s_ctrl sample_priv streaming_bus V4L2_CID_EXPOSURE 100 =
     Some (0, 100, sample_priv\<lparr>exposure_time := 100\<rparr>,
           streaming_bus\<lparr>trace := [I2C_Send [0x01, 0x5A, 0x00, 0x64]]\<rparr>) \<and>
   read_value streaming_bus 1 REG_VALUE_08BIT AND 0x1f = 0x01"
  by (simp add: imx219_s_ctrl_def with_val_def s_ctrl_exposure_def Let_def reg_write_def
     i2c_master_send_def reg_write_buf_def put_unaligned_be16_def put_unaligned_be32_def emit_def
     streaming_bus_def sample_priv_def REG_VALUE_16BIT_def IMX219_REG_EXPOSURE_def EIO_def
     bus_ok_def read_value_def REG_VALUE_08BIT_def get_unaligned_be32_def
     replicate_3)

end
